theory Spec2Isabelle
  imports Complex_Main "HOL-Library.Sublist"
begin

section \<open>The prompt optimizer of DevFlow (src/core/prompt-optimizer.ts)\<close>

text \<open>
  A shallow embedding of the COSTAR part of class \<open>PromptOptimizer\<close>: the six component
  analyzers, the score aggregator \<open>calculateCOSTARScore\<close>, the triage advisor
  \<open>performTriage\<close>, the synthesizer \<open>generateCOSTARImprovedPrompt\<close> and the change
  recorder \<open>generateCOSTARChangesSummary\<close>.

  Modelling decisions.
  \<^item> A prompt is a \<open>string\<close>: a list of 8-bit characters, read as the UTF-16 code units
    below 256 of the JavaScript string. Within that range the white space of \<open>\s\<close> and of
    \<open>trim()\<close> is the seven characters of \<open>is_space\<close>, and \<open>\w\<close> is \<open>is_word\<close>.
  \<^item> Component scores are \<open>int\<close> (the analyzers only ever produce integers). The weighted
    sum of \<open>calculateCOSTARScore\<close> is computed as the source computes it, in IEEE double
    precision with rounding to nearest after every product and sum.
  \<^item> Every regular expression of the source is a literal alternation, optionally between
    word boundaries or anchors, optionally followed by white space and one greedy group.
    Each shape is one combinator below, written by the backtracking semantics of
    ECMAScript regular expressions (flag \<open>i\<close>: letters are compared after case folding).
\<close>

subsection \<open>Characters and strings\<close>

definition is_word :: "char \<Rightarrow> bool" where
  "is_word c \<longleftrightarrow>
     c \<in> set ''abcdefghijklmnopqrstuvwxyzABCDEFGHIJKLMNOPQRSTUVWXYZ0123456789_''"

definition is_space :: "char \<Rightarrow> bool" where
  "is_space c \<longleftrightarrow>
     c \<in> set [CHR 0x09, CHR 0x0A, CHR 0x0B, CHR 0x0C, CHR 0x0D, CHR 0x20, CHR 0xA0]"

text \<open>The characters \<open>.\<close> matches: everything but a line terminator.\<close>

definition is_dot :: "char \<Rightarrow> bool" where
  "is_dot c \<longleftrightarrow> c \<noteq> CHR 0x0A \<and> c \<noteq> CHR 0x0D"

definition lower :: "char \<Rightarrow> char" where
  "lower c =
     (case map_of (zip ''ABCDEFGHIJKLMNOPQRSTUVWXYZ'' ''abcdefghijklmnopqrstuvwxyz'') c of
        Some d \<Rightarrow> d
      | None \<Rightarrow> c)"

text \<open>\<open>String.prototype.trim\<close>.\<close>

definition trim :: "string \<Rightarrow> string" where
  "trim s = rev (dropWhile is_space (rev (dropWhile is_space s)))"

text \<open>\<open>s.split('\n')\<close>: never empty, \<open>''.split('\n')\<close> is \<open>['']\<close>.\<close>

fun split_nl :: "string \<Rightarrow> string list" where
  "split_nl [] = [[]]"
| "split_nl (c # cs) =
     (case split_nl cs of
        [] \<Rightarrow> [[c]]
      | l # ls \<Rightarrow> if c = CHR 0x0A then [] # l # ls else (c # l) # ls)"

text \<open>\<open>xs.join(sep)\<close>.\<close>

fun join :: "string \<Rightarrow> string list \<Rightarrow> string" where
  "join sep [] = []"
| "join sep [x] = x"
| "join sep (x # y # ys) = x @ sep @ join sep (y # ys)"

text \<open>A number in a template literal: its decimal digits.\<close>

fun string_of_nat :: "nat \<Rightarrow> string" where
  "string_of_nat n =
     (if n < 10 then [''0123456789'' ! n]
      else string_of_nat (n div 10) @ [''0123456789'' ! (n mod 10)])"

subsection \<open>The regular expressions of the source\<close>

text \<open>
  \<open>lit w t\<close> matches the literal \<open>w\<close> at the start of \<open>t\<close> under flag \<open>i\<close> and returns
  the rest of the text.
\<close>

fun lit :: "string \<Rightarrow> string \<Rightarrow> string option" where
  "lit [] t = Some t"
| "lit (p # ps) [] = None"
| "lit (p # ps) (c # cs) = (if lower c = lower p then lit ps cs else None)"

text \<open>
  \<open>\b\<close> between the character before a position (\<open>None\<close> at the start of the input) and
  the text from that position on.
\<close>

definition bnd :: "char option \<Rightarrow> string \<Rightarrow> bool" where
  "bnd prev rest \<longleftrightarrow>
     (case prev of None \<Rightarrow> False | Some c \<Rightarrow> is_word c) \<noteq>
     (case rest of [] \<Rightarrow> False | c # cs \<Rightarrow> is_word c)"

text \<open>\<open>(w1|...|wn)\b\<close> at a position: some alternative matches and a boundary follows.\<close>

definition alt_then_bnd :: "string list \<Rightarrow> string \<Rightarrow> bool" where
  "alt_then_bnd ws t \<longleftrightarrow>
     list_ex (\<lambda>w. case lit w t of None \<Rightarrow> False | Some r \<Rightarrow> bnd (Some (last w)) r) ws"

text \<open>An unanchored \<open>test\<close> tries every position from left to right.\<close>

fun rx_search :: "(char option \<Rightarrow> string \<Rightarrow> bool) \<Rightarrow> char option \<Rightarrow> string \<Rightarrow> bool" where
  "rx_search m prev [] = m prev []"
| "rx_search m prev (c # cs) = (m prev (c # cs) \<or> rx_search m (Some c) cs)"

text \<open>\<open>/\b(w1|...|wn)\b/i.test(t)\<close>\<close>

definition test_words :: "string list \<Rightarrow> string \<Rightarrow> bool" where
  "test_words ws t = rx_search (\<lambda>prev r. bnd prev r \<and> alt_then_bnd ws r) None t"

text \<open>\<open>/w1|...|wn/i.test(t)\<close>\<close>

definition test_sub :: "string list \<Rightarrow> string \<Rightarrow> bool" where
  "test_sub ws t = rx_search (\<lambda>prev r. list_ex (\<lambda>w. lit w r \<noteq> None) ws) None t"

text \<open>\<open>/^(w1|...|wn)\b/i.test(t)\<close>\<close>

definition test_start_word :: "string list \<Rightarrow> string \<Rightarrow> bool" where
  "test_start_word ws t = alt_then_bnd ws t"

text \<open>\<open>/^(w1|...|wn)$/i.test(t)\<close>; without flag \<open>m\<close>, \<open>$\<close> is the end of the input.\<close>

definition test_whole :: "string list \<Rightarrow> string \<Rightarrow> bool" where
  "test_whole ws t = list_ex (\<lambda>w. lit w t = Some []) ws"

text \<open>
  Greedy \<open>\s*\<close> and \<open>\s+\<close> followed by the rest of the pattern \<open>k\<close>: the longest run of
  white space is tried first, and a character is given back whenever \<open>k\<close> fails.
\<close>

fun star_space :: "(string \<Rightarrow> 'a option) \<Rightarrow> string \<Rightarrow> 'a option" where
  "star_space k [] = k []"
| "star_space k (c # cs) =
     (if is_space c
      then (case star_space k cs of Some g \<Rightarrow> Some g | None \<Rightarrow> k (c # cs))
      else k (c # cs))"

fun plus_space :: "(string \<Rightarrow> 'a option) \<Rightarrow> string \<Rightarrow> 'a option" where
  "plus_space k [] = None"
| "plus_space k (c # cs) = (if is_space c then star_space k cs else None)"

text \<open>A final greedy group \<open>([^\n]+)\<close> and \<open>(.+)\<close>: the longest non-empty run.\<close>

definition line_group :: "string \<Rightarrow> string option" where
  "line_group t =
     (let g = takeWhile (\<lambda>c. c \<noteq> CHR 0x0A) t in if g = [] then None else Some g)"

definition dot_group :: "string \<Rightarrow> string option" where
  "dot_group t = (let g = takeWhile is_dot t in if g = [] then None else Some g)"

text \<open>The first alternative, in the order written, for which the rest of the pattern matches.\<close>

fun first_alt :: "('b \<Rightarrow> 'a option) \<Rightarrow> 'b list \<Rightarrow> 'a option" where
  "first_alt f [] = None"
| "first_alt f (w # ws) = (case f w of Some r \<Rightarrow> Some r | None \<Rightarrow> first_alt f ws)"

text \<open>\<open>t.match(re)\<close> of an unanchored expression: the match at the leftmost position.\<close>

fun first_match :: "(string \<Rightarrow> 'a option) \<Rightarrow> string \<Rightarrow> 'a option" where
  "first_match m [] = m []"
| "first_match m (c # cs) =
     (case m (c # cs) of Some r \<Rightarrow> Some r | None \<Rightarrow> first_match m cs)"

text \<open>\<open>t.match(/(l1|...|ln):\s*([^\n]+)/i)\<close>, giving group 2.\<close>

definition match_label :: "string list \<Rightarrow> string \<Rightarrow> string option" where
  "match_label ls t =
     first_match
       (\<lambda>r. first_alt
          (\<lambda>l. case lit (l @ '':'') r of
                 None \<Rightarrow> None
               | Some r' \<Rightarrow> star_space line_group r') ls) t"

text \<open>
  \<open>t.match(/^(v1|...|vn)\s+(.+)/i)\<close>, giving groups 1 and 2. Group 1 is the matched text
  itself, in the case the prompt wrote it.
\<close>

definition match_action :: "string list \<Rightarrow> string \<Rightarrow> (string \<times> string) option" where
  "match_action vs t =
     first_alt
       (\<lambda>v. case lit v t of
              None \<Rightarrow> None
            | Some r \<Rightarrow>
                (case plus_space dot_group r of
                   None \<Rightarrow> None
                 | Some g \<Rightarrow> Some (take (length v) t, g))) vs"

subsection \<open>The data model\<close>

datatype OptimizerMode = Fast | Deep

text \<open>The fields every component analysis has; each component extends them by its traits.\<close>

record ComponentAnalysis =
  score :: int
  issues :: "string list"
  suggestions :: "string list"

record ContextAnalysis = ComponentAnalysis +
  hasBackground :: bool
  hasConstraints :: bool
  situationClarity :: int

record ObjectiveAnalysis = ComponentAnalysis +
  goalClarity :: bool
  measurable :: bool
  achievable :: bool
  clarityScore :: int

record StyleAnalysis = ComponentAnalysis +
  formatSpecified :: bool
  structureDefined :: bool
  presentationClear :: bool

datatype Formality = Formal | Casual | Technical | Unspecified

record ToneAnalysis = ComponentAnalysis +
  toneSpecified :: bool
  voiceConsistency :: bool
  formalityLevel :: Formality

record AudienceAnalysis = ComponentAnalysis +
  audienceSpecified :: bool
  skillLevelDefined :: bool
  needsAddressed :: bool

record ResponseAnalysis = ComponentAnalysis +
  outputFormatClear :: bool
  deliverablesSpecified :: bool
  examplesProvided :: bool

datatype Rating = Excellent | Good | NeedsImprovement | Poor

record COSTARScore =
  overall :: int
  "context" :: int
  objective :: int
  style :: int
  tone :: "int option"
  audience :: "int option"
  response :: "int option"
  rating :: Rating

datatype Component = CompC | CompO | CompS | CompT | CompA | CompR

record Change =
  component :: Component
  change :: string

text \<open>
  The argument of the aggregator, the synthesizer and the recorder; \<open>COSTARResult\<close>
  extends it, so a result can be passed wherever the analysis is expected.
\<close>

record COSTARAnalysis =
  "context" :: ContextAnalysis
  objective :: ObjectiveAnalysis
  style :: StyleAnalysis
  tone :: "ToneAnalysis option"
  audience :: "AudienceAnalysis option"
  response :: "ResponseAnalysis option"

record COSTARResult = COSTARAnalysis +
  overallScore :: int
  improvedPrompt :: string
  changesSummary :: "Change list"

record TriageResult =
  needsDeepAnalysis :: bool
  reasons :: "string list"

subsection \<open>Helper methods for analysis\<close>

definition hasContext :: "string \<Rightarrow> bool" where
  "hasContext prompt =
     test_words [''background'', ''context'', ''currently'', ''existing'', ''problem'',
       ''issue'', ''because'', ''given'', ''situation''] prompt"

definition hasSuccessCriteria :: "string \<Rightarrow> bool" where
  "hasSuccessCriteria prompt =
     test_words [''success'', ''complete'', ''done'', ''measure'', ''metric'', ''goal'',
       ''should be able to''] prompt"

definition hasTechnicalDetails :: "string \<Rightarrow> bool" where
  "hasTechnicalDetails prompt \<longleftrightarrow>
     test_words [''react'', ''vue'', ''angular'', ''node'', ''python'', ''java'',
       ''typescript'', ''api'', ''database'', ''sql'', ''nosql'', ''aws'', ''docker'',
       ''kubernetes''] prompt \<or>
     test_words [''integrate'', ''performance'', ''scale'', ''security''] prompt"

definition hasUserNeeds :: "string \<Rightarrow> bool" where
  "hasUserNeeds prompt =
     test_words [''user'', ''customer'', ''client'', ''team'', ''developer'', ''admin'',
       ''visitor'', ''audience''] prompt"

definition hasExpectedOutput :: "string \<Rightarrow> bool" where
  "hasExpectedOutput prompt =
     test_words [''output'', ''result'', ''deliverable'', ''should'', ''look like'',
       ''include'', ''contain'', ''provide'', ''return''] prompt"

text \<open>
  The alternatives of \<open>tooBroad\<close>, \<open>/^(build an? app|create a system|make a platform|develop
  everything)$/i\<close>, with the optional \<open>n\<close> written out.
\<close>

definition hasUnrealisticScope :: "string \<Rightarrow> bool" where
  "hasUnrealisticScope prompt =
     (let tooBroad =
        test_whole [''build an app'', ''build a app'', ''create a system'',
          ''make a platform'', ''develop everything''] (trim prompt)
      in tooBroad \<or>
         (length prompt < 30 \<and> test_words [''app'', ''system'', ''platform''] prompt))"

definition countMissingCriticalElements :: "string \<Rightarrow> nat" where
  "countMissingCriticalElements prompt =
     (if \<not> hasContext prompt then 1 else 0) +
     (if \<not> hasTechnicalDetails prompt then 1 else 0) +
     (if \<not> hasSuccessCriteria prompt then 1 else 0) +
     (if \<not> hasUserNeeds prompt then 1 else 0) +
     (if \<not> hasExpectedOutput prompt then 1 else 0)"

subsection \<open>The six component analyzers\<close>

text \<open>
  Each analyzer ends with the same block: \<open>let score = 0; if (trait) score += weight; ...\<close>
  and returns \<open>Math.min(100, score)\<close>. The block is a function of the traits alone.
\<close>

definition weight :: "bool \<Rightarrow> int \<Rightarrow> int" where
  "weight trait w = (if trait then w else 0)"

definition contextScore :: "bool \<Rightarrow> bool \<Rightarrow> bool \<Rightarrow> int" where
  "contextScore background constraints technical =
     min 100 (weight background 50 + weight constraints 30 + weight technical 20)"

definition objectiveScore :: "bool \<Rightarrow> bool \<Rightarrow> bool \<Rightarrow> int" where
  "objectiveScore clarity measured achieved =
     min 100 (weight clarity 40 + weight measured 30 + weight achieved 30)"

definition styleScore :: "bool \<Rightarrow> bool \<Rightarrow> bool \<Rightarrow> int" where
  "styleScore format structure presentation =
     min 100 (weight format 40 + weight structure 35 + weight presentation 25)"

definition toneScore :: "bool \<Rightarrow> bool \<Rightarrow> Formality \<Rightarrow> int" where
  "toneScore specified consistency formality =
     min 100 (weight specified 50 + weight consistency 25 +
       weight (formality \<noteq> Unspecified) 25)"

definition audienceScore :: "bool \<Rightarrow> bool \<Rightarrow> bool \<Rightarrow> int" where
  "audienceScore specified skill needs =
     min 100 (weight specified 40 + weight skill 35 + weight needs 25)"

definition responseScore :: "bool \<Rightarrow> bool \<Rightarrow> bool \<Rightarrow> int" where
  "responseScore output deliverables examples =
     min 100 (weight output 40 + weight deliverables 40 + weight examples 20)"

text \<open>\<open>if (cond) xs.push(x)\<close>, as the list of what is pushed.\<close>

definition pushIf :: "bool \<Rightarrow> 'a \<Rightarrow> 'a list" where
  "pushIf cond x = (if cond then [x] else [])"

definition analyzeContext :: "string \<Rightarrow> ContextAnalysis" where
  "analyzeContext prompt =
     (let hasBackground =
            (test_words [''background'', ''context'', ''currently'', ''existing'',
               ''situation'', ''given that'', ''considering''] prompt \<or>
             test_words [''you are'', ''you're working'', ''the project'', ''this is'']
               prompt);
          hasConstraints =
            (test_words [''constraint'', ''limitation'', ''requirement'', ''must'',
               ''cannot'', ''should not'', ''restricted''] prompt \<or>
             test_words [''using'', ''with'', ''without'', ''requires'', ''needs''] prompt);
          situationClarity =
            weight hasBackground 50 + weight hasConstraints 30 +
            weight (hasTechnicalDetails prompt) 20
      in \<lparr> score = contextScore hasBackground hasConstraints (hasTechnicalDetails prompt),
           issues =
             pushIf (\<not> hasBackground) ''No background or situational context provided'' @
             pushIf (\<not> hasConstraints) ''Constraints or requirements not specified'',
           suggestions =
             pushIf (\<not> hasBackground)
               ''[C] Add background: Explain the current situation or problem context'' @
             pushIf (\<not> hasConstraints)
               ''[C] Specify constraints: Technologies, limitations, or requirements that apply'',
           hasBackground = hasBackground,
           hasConstraints = hasConstraints,
           situationClarity = situationClarity \<rparr>)"

definition actionVerbs :: "string list" where
  "actionVerbs = [''create'', ''build'', ''develop'', ''implement'', ''add'', ''update'',
     ''fix'', ''refactor'', ''design'', ''generate'']"

definition analyzeObjective :: "string \<Rightarrow> ObjectiveAnalysis" where
  "analyzeObjective prompt =
     (let goalClarity =
            (test_start_word actionVerbs (trim prompt) \<or>
             test_words [''objective'', ''goal'', ''purpose'', ''aim'', ''want to'',
               ''need to''] prompt);
          measurable =
            (hasSuccessCriteria prompt \<or>
             test_words [''measure'', ''metric'', ''complete when'', ''done when'',
               ''success''] prompt);
          achievable = (\<not> hasUnrealisticScope prompt);
          clarityScore =
            weight goalClarity 40 + weight measurable 30 + weight achievable 30
      in \<lparr> score = objectiveScore goalClarity measurable achievable,
           issues =
             pushIf (\<not> goalClarity) ''Goal or objective not clearly stated'' @
             pushIf (\<not> measurable) ''Objective not measurable'' @
             pushIf (\<not> achievable) ''Objective may be too broad or unrealistic'',
           suggestions =
             pushIf (\<not> goalClarity)
               ''[O] State objective clearly: Use action verbs (create, build, implement)'' @
             pushIf (\<not> measurable)
               ''[O] Make objective measurable: Define what success looks like'' @
             pushIf (\<not> achievable)
               ''[O] Refine scope: Break down into achievable, focused goal'',
           goalClarity = goalClarity,
           measurable = measurable,
           achievable = achievable,
           clarityScore = clarityScore \<rparr>)"

definition analyzeStyle :: "string \<Rightarrow> StyleAnalysis" where
  "analyzeStyle prompt =
     (let formatSpecified =
            (test_words [''format'', ''markdown'', ''json'', ''code'', ''list'', ''table'',
               ''bullet'', ''numbered'', ''xml'', ''yaml''] prompt \<or>
             test_words [''provide as'', ''structure as'', ''present as'', ''organize'']
               prompt);
          structureDefined =
            (test_words [''section'', ''heading'', ''organize'', ''structure'', ''step'',
               ''phase'', ''part''] prompt \<or>
             test_words [''include'', ''contain'', ''with'', ''having''] prompt);
          presentationClear =
            (formatSpecified \<and>
             (structureDefined \<or>
              test_words [''example'', ''sample'', ''like'', ''such as''] prompt))
      in \<lparr> score = styleScore formatSpecified structureDefined presentationClear,
           issues =
             pushIf (\<not> formatSpecified) ''Output format not specified'' @
             pushIf (\<not> structureDefined) ''Structure or organization not defined'',
           suggestions =
             pushIf (\<not> formatSpecified)
               ''[S] Specify format: Define how output should be presented (markdown, code, list)'' @
             pushIf (\<not> structureDefined)
               ''[S] Define structure: Specify how information should be organized'' @
             pushIf (\<not> presentationClear)
               ''[S] Clarify presentation: Add examples or specify organization preferences'',
           formatSpecified = formatSpecified,
           structureDefined = structureDefined,
           presentationClear = presentationClear \<rparr>)"

definition analyzeTone :: "string \<Rightarrow> ToneAnalysis" where
  "analyzeTone prompt =
     (let toneSpecified =
            test_words [''tone'', ''voice'', ''style'', ''formal'', ''informal'', ''casual'',
              ''professional'', ''friendly'', ''technical''] prompt;
          voiceConsistency =
            (test_words [''consistent'', ''throughout'', ''maintain'', ''keep''] prompt \<and>
             toneSpecified);
          formalityLevel =
            (if test_words [''formal'', ''professional'', ''business''] prompt then Formal
             else if test_words [''casual'', ''friendly'', ''conversational'', ''informal'']
                       prompt then Casual
             else if test_words [''technical'', ''precise'', ''expert'', ''developer'']
                       prompt then Technical
             else Unspecified)
      in \<lparr> score = toneScore toneSpecified voiceConsistency formalityLevel,
           issues = pushIf (\<not> toneSpecified) ''Tone or voice not specified'',
           suggestions =
             pushIf (\<not> toneSpecified)
               ''[T] Specify tone: Define desired communication style (professional, casual, technical)'' @
             pushIf (formalityLevel = Unspecified \<and> toneSpecified)
               ''[T] Clarify formality: Specify whether formal, casual, or technical tone is preferred'',
           toneSpecified = toneSpecified,
           voiceConsistency = voiceConsistency,
           formalityLevel = formalityLevel \<rparr>)"

definition analyzeAudience :: "string \<Rightarrow> AudienceAnalysis" where
  "analyzeAudience prompt =
     (let audienceSpecified =
            (test_words [''for'', ''target'', ''audience'', ''user'', ''developer'',
               ''beginner'', ''expert'', ''senior'', ''junior'', ''team''] prompt \<or>
             test_words [''who will'', ''intended for'', ''designed for''] prompt);
          skillLevelDefined =
            (test_words [''beginner'', ''intermediate'', ''advanced'', ''expert'', ''senior'',
               ''junior'', ''novice'', ''experienced''] prompt \<or>
             test_words [''familiar with'', ''knowledge of'', ''assumes''] prompt);
          needsAddressed =
            (audienceSpecified \<and>
             (skillLevelDefined \<or>
              test_words [''needs'', ''requires'', ''wants'', ''looking for''] prompt))
      in \<lparr> score = audienceScore audienceSpecified skillLevelDefined needsAddressed,
           issues = pushIf (\<not> audienceSpecified) ''Target audience not specified'',
           suggestions =
             pushIf (\<not> audienceSpecified)
               ''[A] Define audience: Specify who will use this (developers, beginners, experts)'' @
             pushIf (\<not> skillLevelDefined \<and> audienceSpecified)
               ''[A] Specify skill level: Define expertise level of target audience'' @
             pushIf (\<not> needsAddressed \<and> audienceSpecified)
               ''[A] Address needs: Consider specific needs of the target audience'',
           audienceSpecified = audienceSpecified,
           skillLevelDefined = skillLevelDefined,
           needsAddressed = needsAddressed \<rparr>)"

definition analyzeResponse :: "string \<Rightarrow> ResponseAnalysis" where
  "analyzeResponse prompt =
     (let outputFormatClear =
            (test_words [''output'', ''result'', ''deliverable'', ''return'', ''provide'',
               ''generate''] prompt \<or>
             hasExpectedOutput prompt);
          deliverablesSpecified =
            (test_words [''deliverable'', ''include'', ''provide'', ''contain'', ''with'',
               ''having''] prompt \<and>
             test_words [''code'', ''documentation'', ''test'', ''example'', ''file''] prompt);
          examplesProvided =
            test_words [''example'', ''sample'', ''such as'', ''like'', ''e.g.'',
              ''for instance'', ''similar to''] prompt
      in \<lparr> score = responseScore outputFormatClear deliverablesSpecified examplesProvided,
           issues =
             pushIf (\<not> outputFormatClear) ''Expected output format not clear'' @
             pushIf (\<not> deliverablesSpecified) ''Specific deliverables not listed'',
           suggestions =
             pushIf (\<not> outputFormatClear)
               ''[R] Clarify output: Specify what should be returned or delivered'' @
             pushIf (\<not> deliverablesSpecified)
               ''[R] List deliverables: Specify concrete outputs (code, docs, tests, examples)'' @
             pushIf (\<not> examplesProvided)
               ''[R] Provide examples: Include sample outputs or references'',
           outputFormatClear = outputFormatClear,
           deliverablesSpecified = deliverablesSpecified,
           examplesProvided = examplesProvided \<rparr>)"

subsection \<open>Double-precision arithmetic\<close>

text \<open>
  A JavaScript number is an IEEE 754 double. A finite double is modelled by the rational it
  denotes, and every literal, product and sum of the source is rounded to the nearest double,
  ties to the even significand: \<open>fl x\<close> keeps 53 significant bits of \<open>x\<close>. The exponent
  range is not modelled (no overflow, no subnormal numbers); the scores are integers of
  magnitude below \<open>2 ^ 53\<close>, which doubles represent exactly, and the weighted sums stay far
  inside the range.
\<close>

text \<open>The number of binary digits of a positive integer.\<close>

function bit_length :: "int \<Rightarrow> int" where
  "bit_length n = (if n \<le> 0 then 0 else 1 + bit_length (n div 2))"
  by pat_completeness auto
termination
  by (relation "measure nat") auto

definition pow2 :: "int \<Rightarrow> rat" where
  "pow2 e = (if 0 \<le> e then 2 ^ nat e else 1 / 2 ^ nat (- e))"

text \<open>The exponent \<open>e\<close> with \<open>2 ^ e \<le> x < 2 ^ (e + 1)\<close>, for positive \<open>x\<close>.\<close>

definition binade :: "rat \<Rightarrow> int" where
  "binade x =
     (case quotient_of x of (p, q) \<Rightarrow>
        (let e = bit_length p - bit_length q
         in if pow2 e \<le> x then e else e - 1))"

text \<open>The nearest integer, a half rounded to the even neighbour.\<close>

definition round_even :: "rat \<Rightarrow> int" where
  "round_even m =
     (let f = \<lfloor>m\<rfloor>; r = m - of_int f
      in if r < 1 / 2 then f else if 1 / 2 < r then f + 1 else if even f then f else f + 1)"

definition fl :: "rat \<Rightarrow> rat" where
  "fl x =
     (if x = 0 then 0
      else (let q = pow2 (binade \<bar>x\<bar> - 52) in of_int (round_even (x / q)) * q))"

text \<open>The operators \<open>*\<close> and \<open>+\<close> on doubles.\<close>

definition dmul :: "rat \<Rightarrow> rat \<Rightarrow> rat" where
  "dmul x y = fl (x * y)"

definition dadd :: "rat \<Rightarrow> rat \<Rightarrow> rat" where
  "dadd x y = fl (x + y)"

subsection \<open>The score aggregator\<close>

text \<open>
  \<open>Math.round\<close>: the nearest integer, a half rounded towards plus infinity. It is exact
  on the double it is given.
\<close>

definition Math_round :: "rat \<Rightarrow> int" where
  "Math_round x = \<lfloor>x + 1 / 2\<rfloor>"

definition rate :: "rat \<Rightarrow> Rating" where
  "rate x =
     (if x \<ge> 80 then Excellent
      else if x \<ge> 60 then Good
      else if x \<ge> 40 then NeedsImprovement
      else Poor)"

text \<open>
  The two arms of the \<open>if\<close> of \<open>calculateCOSTARScore\<close>, as functions of the component
  scores: the expressions of the source, evaluated from left to right in doubles.
\<close>

definition weightedDeep :: "int \<Rightarrow> int \<Rightarrow> int \<Rightarrow> int \<Rightarrow> int \<Rightarrow> int \<Rightarrow> rat" where
  "weightedDeep c ob s t au r =
     dadd (dadd (dadd (dadd (dadd
       (dmul (of_int c) (fl 0.2))
       (dmul (of_int ob) (fl 0.2)))
       (dmul (of_int s) (fl 0.15)))
       (dmul (of_int t) (fl 0.15)))
       (dmul (of_int au) (fl 0.15)))
       (dmul (of_int r) (fl 0.15))"

definition weightedFast :: "int \<Rightarrow> int \<Rightarrow> int \<Rightarrow> rat" where
  "weightedFast c ob s =
     dadd (dadd
       (dmul (of_int c) (fl 0.35))
       (dmul (of_int ob) (fl 0.35)))
       (dmul (of_int s) (fl 0.3))"

text \<open>
  The rating is decided on the weighted sum as computed; \<open>Math.round\<close> is applied
  afterwards, to the \<open>overall\<close> field of the returned object only.
\<close>

definition calculateCOSTARScore :: "'a COSTARAnalysis_scheme \<Rightarrow> COSTARScore" where
  "calculateCOSTARScore analysis =
     (let overall =
        (if tone analysis \<noteq> None \<and> audience analysis \<noteq> None \<and> response analysis \<noteq> None
         then weightedDeep (score (context analysis)) (score (objective analysis))
                (score (style analysis)) (score (the (tone analysis)))
                (score (the (audience analysis))) (score (the (response analysis)))
         else weightedFast (score (context analysis)) (score (objective analysis))
                (score (style analysis)))
      in \<lparr> COSTARScore.overall = Math_round overall,
           COSTARScore.context = score (context analysis),
           COSTARScore.objective = score (objective analysis),
           COSTARScore.style = score (style analysis),
           COSTARScore.tone = map_option score (tone analysis),
           COSTARScore.audience = map_option score (audience analysis),
           COSTARScore.response = map_option score (response analysis),
           COSTARScore.rating = rate overall \<rparr>)"

subsection \<open>The triage advisor\<close>

definition performTriage :: "string \<Rightarrow> COSTARResult option \<Rightarrow> TriageResult" where
  "performTriage prompt costarResult =
     (let reasons =
        (case costarResult of
           Some r \<Rightarrow>
             pushIf (score (context r) < 60)
               ''Context score below 60% - needs richer background information'' @
             pushIf (score (objective r) < 60)
               ''Objective score below 60% - goal needs clarification'' @
             pushIf (score (style r) < 50)
               ''Style score below 50% - output format not well-defined''
         | None \<Rightarrow>
             pushIf (length (trim prompt) < 20) ''Prompt is very short (< 20 characters)'' @
             (let criticalElements = countMissingCriticalElements prompt
              in pushIf (criticalElements \<ge> 3)
                   (''Missing '' @ string_of_nat criticalElements @ '' critical elements'')))
      in \<lparr> needsDeepAnalysis = (length reasons > 0), reasons = reasons \<rparr>)"

subsection \<open>The prompt synthesizer\<close>

definition extractOrInferTechnical :: "string \<Rightarrow> string" where
  "extractOrInferTechnical original =
     (let techStack =
        pushIf (test_sub [''react''] original) ''React'' @
        pushIf (test_sub [''typescript''] original) ''TypeScript'' @
        pushIf (test_sub [''node''] original) ''Node.js'' @
        pushIf (test_sub [''python''] original) ''Python''
      in if length techStack > 0
         then ''- Technology stack: '' @ join '', '' techStack @
              ''\<newline>- [Add other constraints]''
         else ''- [Specify technologies, integrations, performance requirements]'')"

definition extractOrInferContext :: "string \<Rightarrow> string" where
  "extractOrInferContext prompt =
     (case match_label [''background'', ''context'', ''currently'', ''given'', ''situation'']
             prompt of
        Some g \<Rightarrow> g
      | None \<Rightarrow>
          if hasTechnicalDetails prompt
          then ''Working in a development environment with '' @
               extractOrInferTechnical prompt
          else ''Development project requiring implementation of new functionality'')"

definition extractOrInferObjective :: "string \<Rightarrow> string" where
  "extractOrInferObjective prompt =
     (case match_action actionVerbs prompt of
        Some (g1, g2) \<Rightarrow> g1 @ '' '' @ g2
      | None \<Rightarrow>
          (case match_label [''objective'', ''goal'', ''purpose''] prompt of
             Some g \<Rightarrow> g
           | None \<Rightarrow>
               (let firstLine = hd (split_nl prompt)
                in if firstLine \<noteq> [] then firstLine else take 100 prompt)))"

definition extractOrInferRequirements :: "string \<Rightarrow> string" where
  "extractOrInferRequirements prompt =
     (let lines = filter (\<lambda>line. trim line \<noteq> []) (split_nl prompt)
      in if length lines > 1
         then join ''\<newline>'' (map (\<lambda>line. ''- '' @ line) (drop 1 lines))
         else ''- '' @ prompt @ ''\<newline>- [Add specific requirements based on objective]'')"

definition extractToneGuidance :: "string \<Rightarrow> string" where
  "extractToneGuidance prompt =
     (if test_sub [''professional''] prompt then ''Professional tone''
      else if test_sub [''casual''] prompt then ''Casual, friendly tone''
      else if test_sub [''technical''] prompt then ''Technical, precise tone''
      else ''Professional, clear tone'')"

definition extractAudienceDefinition :: "string \<Rightarrow> string" where
  "extractAudienceDefinition prompt =
     (if test_sub [''beginner''] prompt
      then ''Target audience: Beginners with basic programming knowledge''
      else if test_sub [''senior'', ''expert''] prompt
      then ''Target audience: Senior developers with deep expertise''
      else ''Target audience: Intermediate to advanced developers'')"

definition extractDeliverables :: "string \<Rightarrow> string" where
  "extractDeliverables prompt =
     (let deliverables =
        pushIf (test_sub [''code''] prompt) ''- Complete code implementation'' @
        pushIf (test_sub [''documentation'', ''docs''] prompt) ''- Documentation'' @
        pushIf (test_sub [''test''] prompt) ''- Test coverage'' @
        pushIf (test_sub [''example''] prompt) ''- Usage examples''
      in if length deliverables > 0 then join ''\<newline>'' deliverables
         else ''- [Specify deliverables]'')"

text \<open>
  The text appended for one conditional block: \<open>if (cond) improved += text\<close>.
\<close>

definition appendIf :: "bool \<Rightarrow> string \<Rightarrow> string" where
  "appendIf cond text = (if cond then text else [])"

definition generateCOSTARImprovedPrompt :: "string \<Rightarrow> 'a COSTARAnalysis_scheme \<Rightarrow> string" where
  "generateCOSTARImprovedPrompt original analysis =
     trim (
       ''## CONTEXT\<newline>\<newline>'' @
       (if \<not> hasBackground (context analysis)
        then ''Background: '' @ extractOrInferContext original @ ''\<newline>\<newline>''
        else extractOrInferContext original @ ''\<newline>\<newline>'') @
       appendIf (\<not> hasConstraints (context analysis) \<and> hasTechnicalDetails original)
         (''Constraints: '' @ extractOrInferTechnical original @ ''\<newline>\<newline>'') @
       ''## OBJECTIVE\<newline>\<newline>'' @
       extractOrInferObjective original @ ''\<newline>\<newline>'' @
       ''## STYLE\<newline>\<newline>'' @
       appendIf (\<not> formatSpecified (style analysis))
         ''Format: Provide response as structured, well-organized output\<newline>'' @
       appendIf (\<not> structureDefined (style analysis))
         ''Structure: Organize with clear sections and headings\<newline>'' @
       ''\<newline>'' @
       (case tone analysis of
          None \<Rightarrow> []
        | Some t \<Rightarrow>
            ''## TONE\<newline>\<newline>'' @
            (if \<not> toneSpecified t
             then ''Use a professional, technical tone appropriate for developers\<newline>\<newline>''
             else extractToneGuidance original @ ''\<newline>\<newline>'')) @
       (case audience analysis of
          None \<Rightarrow> []
        | Some a \<Rightarrow>
            ''## AUDIENCE\<newline>\<newline>'' @
            (if \<not> audienceSpecified a
             then ''Target audience: Senior developers with expertise in the relevant technology stack\<newline>\<newline>''
             else extractAudienceDefinition original @ ''\<newline>\<newline>'')) @
       (case response analysis of
          None \<Rightarrow> []
        | Some r \<Rightarrow>
            ''## RESPONSE\<newline>\<newline>'' @
            ''Expected deliverables:\<newline>'' @
            (if \<not> deliverablesSpecified r
             then ''- Complete implementation\<newline>'' @ ''- Documentation\<newline>'' @
                  ''- Test coverage\<newline>\<newline>''
             else extractDeliverables original @ ''\<newline>\<newline>'')) @
       ''---\<newline>\<newline>'' @
       ''# Requirements\<newline>\<newline>'' @
       extractOrInferRequirements original)"

subsection \<open>The change recorder\<close>

definition generateCOSTARChangesSummary ::
  "string \<Rightarrow> string \<Rightarrow> 'a COSTARAnalysis_scheme \<Rightarrow> Change list" where
  "generateCOSTARChangesSummary original improved analysis =
     (let changes =
        pushIf (\<not> hasBackground (context analysis))
          \<lparr> component = CompC,
            change = ''Added background context and situational details'' \<rparr> @
        pushIf (\<not> hasConstraints (context analysis))
          \<lparr> component = CompC, change = ''Specified constraints and requirements'' \<rparr> @
        pushIf (\<not> goalClarity (objective analysis))
          \<lparr> component = CompO, change = ''Clarified objective with clear goal statement'' \<rparr> @
        pushIf (\<not> measurable (objective analysis))
          \<lparr> component = CompO,
            change = ''Made objective measurable with success criteria'' \<rparr> @
        pushIf (\<not> formatSpecified (style analysis))
          \<lparr> component = CompS,
            change = ''Specified output format and presentation style'' \<rparr> @
        pushIf (\<not> structureDefined (style analysis))
          \<lparr> component = CompS, change = ''Defined structure and organization approach'' \<rparr> @
        pushIf (case tone analysis of None \<Rightarrow> False | Some t \<Rightarrow> \<not> toneSpecified t)
          \<lparr> component = CompT,
            change = ''Added tone guidance for appropriate communication style'' \<rparr> @
        pushIf (case audience analysis of None \<Rightarrow> False | Some a \<Rightarrow> \<not> audienceSpecified a)
          \<lparr> component = CompA, change = ''Defined target audience and skill level'' \<rparr> @
        pushIf (case response analysis of None \<Rightarrow> False | Some r \<Rightarrow> \<not> outputFormatClear r)
          \<lparr> component = CompR,
            change = ''Specified expected deliverables and response format'' \<rparr>
      in if length changes = 0
         then [\<lparr> component = CompO,
                 change = ''Structured the prompt with COSTAR framework sections'' \<rparr>]
         else changes)"

subsection \<open>The full analysis\<close>

definition applyCOSTARFramework :: "string \<Rightarrow> OptimizerMode \<Rightarrow> COSTARResult" where
  "applyCOSTARFramework prompt mode =
     (let analysis =
        \<lparr> context = analyzeContext prompt,
          objective = analyzeObjective prompt,
          style = analyzeStyle prompt,
          tone = (if mode = Deep then Some (analyzeTone prompt) else None),
          audience = (if mode = Deep then Some (analyzeAudience prompt) else None),
          response = (if mode = Deep then Some (analyzeResponse prompt) else None) \<rparr>;
          improved = generateCOSTARImprovedPrompt prompt analysis;
          changes = generateCOSTARChangesSummary prompt improved analysis
      in \<lparr> context = context analysis,
           objective = objective analysis,
           style = style analysis,
           tone = tone analysis,
           audience = audience analysis,
           response = response analysis,
           overallScore = COSTARScore.overall (calculateCOSTARScore analysis),
           improvedPrompt = improved,
           changesSummary = changes \<rparr>)"

section \<open>Notions of the specification\<close>

text \<open>
  The definitions of this section are not code of the repository: they write down the
  words the specification uses, so that the theorems below can compare them with the code.
\<close>

text \<open>How many of the five critical elements a prompt lacks.\<close>

definition missingElements :: "string \<Rightarrow> nat" where
  "missingElements prompt =
     length (filter (\<lambda>present. \<not> present)
       [hasContext prompt, hasTechnicalDetails prompt, hasSuccessCriteria prompt,
        hasUserNeeds prompt, hasExpectedOutput prompt])"

text \<open>
  The lines of a text that start with \<open>#\<close> (its headings), and among them the section
  headers, which start with \<open>##\<close> and a blank.
\<close>

definition header_lines :: "string \<Rightarrow> string list" where
  "header_lines s = filter (\<lambda>l. l \<noteq> [] \<and> hd l = CHR ''#'') (split_nl s)"

definition section_headers :: "string \<Rightarrow> string list" where
  "section_headers s = filter (\<lambda>l. take 3 l = ''## '') (split_nl s)"

text \<open>
  A text contains the word \<open>w\<close>: \<open>w\<close> occurs in it, letters compared without case, with no
  word character directly before or after the occurrence. A text starts with the word \<open>w\<close>:
  the same, at its beginning.
\<close>

definition contains_word :: "string list \<Rightarrow> string \<Rightarrow> bool" where
  "contains_word ws t \<longleftrightarrow>
     (\<exists>w \<in> set ws. \<exists>pre post. map lower t = pre @ w @ post \<and>
        (pre = [] \<or> \<not> is_word (last pre)) \<and> (post = [] \<or> \<not> is_word (hd post)))"

definition starts_with_word :: "string list \<Rightarrow> string \<Rightarrow> bool" where
  "starts_with_word ws t \<longleftrightarrow>
     (\<exists>w \<in> set ws. \<exists>post. map lower t = w @ post \<and>
        (post = [] \<or> \<not> is_word (hd post)))"

text \<open>The unrealistic scope of section 4.3 of the specification.\<close>

definition unrealistic :: "string \<Rightarrow> bool" where
  "unrealistic prompt \<longleftrightarrow>
     map lower (trim prompt) \<in> set [''build a app'', ''build an app'', ''create a system'',
       ''make a platform'', ''develop everything''] \<or>
     (length prompt < 30 \<and> contains_word [''app'', ''system'', ''platform''] prompt)"

text \<open>
  The body of a section of a synthesized text: the lines after the first line that is the
  header \<open>h\<close>, up to the next heading line or the rule \<open>---\<close>. A section is filled when its
  body has a line that is not blank.
\<close>

definition section_body :: "string \<Rightarrow> string \<Rightarrow> string list" where
  "section_body h s =
     takeWhile (\<lambda>l. \<not> (l \<noteq> [] \<and> hd l = CHR ''#'') \<and> l \<noteq> ''---'')
       (drop 1 (dropWhile (\<lambda>l. l \<noteq> h) (split_nl s)))"

definition section_filled :: "string \<Rightarrow> string \<Rightarrow> bool" where
  "section_filled h s = list_ex (\<lambda>l. trim l \<noteq> []) (section_body h s)"


subsection \<open>Auxiliary notions of the proofs\<close>

text \<open>A pattern word: not empty, in lower case, with a word character at both ends.\<close>

definition plain :: "string \<Rightarrow> bool" where
  "plain w \<longleftrightarrow> w \<noteq> [] \<and> is_word (hd w) \<and> is_word (last w) \<and> map lower w = w"

text \<open>
  The heading lines after the first line of a text; the text without its trailing white
  space; a text with a character that is not white space.
\<close>

definition mid_lines :: "string \<Rightarrow> string list" where
  "mid_lines s = filter (\<lambda>l. l \<noteq> [] \<and> hd l = CHR ''#'') (tl (split_nl s))"

definition rtrim :: "string \<Rightarrow> string" where
  "rtrim s = rev (dropWhile is_space (rev s))"

definition has_ink :: "string \<Rightarrow> bool" where
  "has_ink s \<longleftrightarrow> (\<exists>c \<in> set s. \<not> is_space c)"

section \<open>Verified properties\<close>

subsection \<open>Basic facts\<close>

lemma pushIf_Nil: "(pushIf c x = []) = (\<not> c)"
  by (simp add: pushIf_def)

lemma length_pushIf: "length (pushIf c x) = (if c then 1 else 0)"
  by (simp add: pushIf_def)


lemma countMissing_missingElements:
  "countMissingCriticalElements p = missingElements p"
  by (simp add: countMissingCriticalElements_def missingElements_def)

lemma apply_fields:
  "context (applyCOSTARFramework p m) = analyzeContext p"
  "objective (applyCOSTARFramework p m) = analyzeObjective p"
  "style (applyCOSTARFramework p m) = analyzeStyle p"
  "tone (applyCOSTARFramework p m) = (if m = Deep then Some (analyzeTone p) else None)"
  "audience (applyCOSTARFramework p m) = (if m = Deep then Some (analyzeAudience p) else None)"
  "response (applyCOSTARFramework p m) = (if m = Deep then Some (analyzeResponse p) else None)"
  by (simp_all add: applyCOSTARFramework_def Let_def)

subsection \<open>The score aggregator\<close>

text \<open>
  The literals of the source as doubles, and the weighted sums used below. Context 90 alone
  gives \<open>90 * 0.35 = 31.499999999999996\<close>, not 31.5; Objective 96 with Style 88 gives
  59.99999999999999, not 60.
\<close>

lemma double_literals:
  "fl 0.35 = 3152519739159347 / 2 ^ 53 \<and> fl 0.3 = 5404319552844595 / 2 ^ 54 \<and>
   fl 0.2 = 3602879701896397 / 2 ^ 54 \<and> fl 0.15 = 5404319552844595 / 2 ^ 55"
  by code_simp

lemma weighted_values:
  "weightedFast 100 70 0 = 119 / 2"
  "weightedFast 50 80 40 = 115 / 2"
  "weightedFast 0 30 0 = 21 / 2"
  "weightedDeep 0 30 0 0 0 0 = 6"
  "weightedFast 90 0 0 = 8866461766385663 / 281474976710656"
  "weightedFast 0 96 88 = 8444249301319679 / 140737488355328"
  by code_simp+

text \<open>
  The weights of the two branches, and the scenario of the test suite: Context 50, Objective 80
  and Style 40 without the optional components give 57.5, reported as 58, rated
  needs-improvement.
\<close>

lemma fast_weights:
  "tone a = None \<or> audience a = None \<or> response a = None \<Longrightarrow>
   COSTARScore.overall (calculateCOSTARScore a) =
     Math_round (weightedFast (score (context a)) (score (objective a)) (score (style a)))"
  by (auto simp add: calculateCOSTARScore_def Let_def)

lemma deep_weights:
  "tone a = Some t \<Longrightarrow> audience a = Some u \<Longrightarrow> response a = Some r \<Longrightarrow>
   COSTARScore.overall (calculateCOSTARScore a) =
     Math_round (weightedDeep (score (context a)) (score (objective a)) (score (style a))
       (score t) (score u) (score r))"
  by (simp add: calculateCOSTARScore_def Let_def)

lemma fast_scenario:
  "tone a = None \<Longrightarrow> score (context a) = 50 \<Longrightarrow> score (objective a) = 80 \<Longrightarrow>
   score (style a) = 40 \<Longrightarrow>
   COSTARScore.overall (calculateCOSTARScore a) = 58 \<and>
   COSTARScore.rating (calculateCOSTARScore a) = NeedsImprovement"
  by (simp add: calculateCOSTARScore_def Let_def Math_round_def rate_def weighted_values)

lemma boundary_scenario:
  "tone a = None \<Longrightarrow> score (context a) = 0 \<Longrightarrow> score (objective a) = 96 \<Longrightarrow>
   score (style a) = 88 \<Longrightarrow>
   COSTARScore.overall (calculateCOSTARScore a) = 60 \<and>
   COSTARScore.rating (calculateCOSTARScore a) = NeedsImprovement"
  by (simp add: calculateCOSTARScore_def Let_def Math_round_def rate_def weighted_values
      floor_eq_iff)

lemma crash_prompt_context:
  "score (analyzeContext ''Fix the existing node api, it must not crash'') = 100"
  by code_simp

lemma crash_prompt_objective:
  "score (analyzeObjective ''Fix the existing node api, it must not crash'') = 70"
  by code_simp

lemma crash_prompt_style:
  "score (analyzeStyle ''Fix the existing node api, it must not crash'') = 0"
  by code_simp

text \<open>
  C1. The weights are as the claim states them, but the rating is looked up on the weighted
  sum before it is rounded. The fast analysis of the prompt below scores Context 100,
  Objective 70 and Style 0: the weighted sum is 59.5 (the three products and their sum are
  exact in double precision), so the reported overall is 60 and the rating is
  needs-improvement, where the claim (and the rating table of the documentation,
  Good: 60-79) gives good.
\<close>

theorem rating_decided_before_rounding:
  "COSTARScore.overall (calculateCOSTARScore
      (applyCOSTARFramework ''Fix the existing node api, it must not crash'' Fast)) = 60
   \<and> COSTARScore.rating (calculateCOSTARScore
      (applyCOSTARFramework ''Fix the existing node api, it must not crash'' Fast))
     = NeedsImprovement"
  by (simp add: calculateCOSTARScore_def Let_def apply_fields crash_prompt_context
      crash_prompt_objective crash_prompt_style Math_round_def rate_def weighted_values)



subsection \<open>The triage advisor\<close>

text \<open>
  C2. With an analysis supplied, deep analysis is recommended exactly when the Context score
  is below 60, the Objective score is below 60 or the Style score is below 50; each failing
  threshold contributes its one reason string, in this order, and the recommendation holds
  exactly when the list of reasons is not empty.
\<close>

theorem triage_score_based:
  "needsDeepAnalysis (performTriage prompt (Some r)) =
     (score (context r) < 60 \<or> score (objective r) < 60 \<or> score (style r) < 50)
   \<and> reasons (performTriage prompt (Some r)) =
       pushIf (score (context r) < 60)
         ''Context score below 60% - needs richer background information'' @
       pushIf (score (objective r) < 60)
         ''Objective score below 60% - goal needs clarification'' @
       pushIf (score (style r) < 50)
         ''Style score below 50% - output format not well-defined''
   \<and> length (reasons (performTriage prompt (Some r))) =
       (if score (context r) < 60 then 1 else 0) +
       (if score (objective r) < 60 then 1 else 0) +
       (if score (style r) < 50 then 1 else 0)
   \<and> needsDeepAnalysis (performTriage prompt (Some r)) =
       (reasons (performTriage prompt (Some r)) \<noteq> [])"
  by (simp add: performTriage_def Let_def length_pushIf pushIf_Nil)

text \<open>
  C10. Triage with a supplied analysis does not depend on the prompt: any two prompts give
  the same result for the same analysis.
\<close>

theorem triage_ignores_prompt:
  "performTriage p1 (Some a) = performTriage p2 (Some a)"
  by (simp add: performTriage_def)

lemma short_prompt_facts:
  "length (trim ''api user goal       '') = 13 \<and>
   hasContext ''api user goal       '' = False \<and>
   hasTechnicalDetails ''api user goal       '' = True \<and>
   hasSuccessCriteria ''api user goal       '' = True \<and>
   hasUserNeeds ''api user goal       '' = True \<and>
   hasExpectedOutput ''api user goal       '' = False"
  by code_simp

text \<open>
  C3. Without an analysis, the length that is compared with 20 is that of the trimmed prompt,
  not of the raw prompt: the prompt below has 20 characters, 13 after trimming, and lacks
  only two of the five critical elements, yet deep analysis is recommended.
\<close>

theorem triage_fallback_raw_length_counterexample:
  "\<not> (needsDeepAnalysis (performTriage ''api user goal       '' None) \<longleftrightarrow>
        (length ''api user goal       '' < 20 \<or> 3 \<le> missingElements ''api user goal       ''))"
  using short_prompt_facts
  by (simp add: performTriage_def Let_def pushIf_def countMissing_missingElements
      missingElements_def)

text \<open>
  C3, amended. Without an analysis, deep analysis is recommended exactly when the trimmed
  prompt is shorter than 20 characters or at least three of the five critical elements are
  missing; each of the two conditions contributes its one reason string, and the
  recommendation holds exactly when the list of reasons is not empty.
\<close>

theorem triage_fallback:
  "needsDeepAnalysis (performTriage p None) =
     (length (trim p) < 20 \<or> 3 \<le> missingElements p)
   \<and> reasons (performTriage p None) =
       pushIf (length (trim p) < 20) ''Prompt is very short (< 20 characters)'' @
       pushIf (3 \<le> missingElements p)
         (''Missing '' @ string_of_nat (missingElements p) @ '' critical elements'')
   \<and> length (reasons (performTriage p None)) =
       (if length (trim p) < 20 then 1 else 0) + (if 3 \<le> missingElements p then 1 else 0)
   \<and> needsDeepAnalysis (performTriage p None) = (reasons (performTriage p None) \<noteq> [])"
  by (simp add: performTriage_def Let_def length_pushIf pushIf_Nil
      countMissing_missingElements)

subsection \<open>The component scores\<close>

text \<open>
  C6. The score of every analyzer is its score block applied to the traits it detected, and
  in each block, with the other traits fixed, a trait that goes from false to true never
  lowers the score.
\<close>

theorem component_scores_monotone:
  "score (analyzeContext p) =
     contextScore (hasBackground (analyzeContext p)) (hasConstraints (analyzeContext p))
       (hasTechnicalDetails p)
   \<and> contextScore False c3 t3 \<le> contextScore True c3 t3
   \<and> contextScore b1 False t3 \<le> contextScore b1 True t3
   \<and> contextScore b1 c3 False \<le> contextScore b1 c3 True
   \<and> score (analyzeObjective p) =
     objectiveScore (goalClarity (analyzeObjective p)) (measurable (analyzeObjective p))
       (achievable (analyzeObjective p))
   \<and> objectiveScore False b2 b3 \<le> objectiveScore True b2 b3
   \<and> objectiveScore b1 False b3 \<le> objectiveScore b1 True b3
   \<and> objectiveScore b1 b2 False \<le> objectiveScore b1 b2 True
   \<and> score (analyzeStyle p) =
     styleScore (formatSpecified (analyzeStyle p)) (structureDefined (analyzeStyle p))
       (presentationClear (analyzeStyle p))
   \<and> styleScore False b2 b3 \<le> styleScore True b2 b3
   \<and> styleScore b1 False b3 \<le> styleScore b1 True b3
   \<and> styleScore b1 b2 False \<le> styleScore b1 b2 True
   \<and> score (analyzeTone p) =
     toneScore (toneSpecified (analyzeTone p)) (voiceConsistency (analyzeTone p))
       (formalityLevel (analyzeTone p))
   \<and> toneScore False b2 f \<le> toneScore True b2 f
   \<and> toneScore b1 False f \<le> toneScore b1 True f
   \<and> score (analyzeAudience p) =
     audienceScore (audienceSpecified (analyzeAudience p))
       (skillLevelDefined (analyzeAudience p)) (needsAddressed (analyzeAudience p))
   \<and> audienceScore False b2 b3 \<le> audienceScore True b2 b3
   \<and> audienceScore b1 False b3 \<le> audienceScore b1 True b3
   \<and> audienceScore b1 b2 False \<le> audienceScore b1 b2 True
   \<and> score (analyzeResponse p) =
     responseScore (outputFormatClear (analyzeResponse p))
       (deliverablesSpecified (analyzeResponse p)) (examplesProvided (analyzeResponse p))
   \<and> responseScore False b2 b3 \<le> responseScore True b2 b3
   \<and> responseScore b1 False b3 \<le> responseScore b1 True b3
   \<and> responseScore b1 b2 False \<le> responseScore b1 b2 True"
  by (simp add: analyzeContext_def analyzeObjective_def analyzeStyle_def analyzeTone_def
      analyzeAudience_def analyzeResponse_def Let_def contextScore_def objectiveScore_def
      styleScore_def toneScore_def audienceScore_def responseScore_def weight_def)

subsection \<open>The regular expressions, characterised\<close>

lemma is_word_lower: "is_word (lower c) = is_word c"
  by (auto simp add: lower_def is_word_def split: option.splits if_splits)

lemma lit_Some_iff:
  "lit w t = Some r \<longleftrightarrow> (\<exists>m. t = m @ r \<and> map lower m = map lower w)"
proof (induction w t rule: lit.induct)
  case (1 t)
  then show ?case by simp
next
  case (2 p ps)
  then show ?case by simp
next
  case (3 p ps c cs)
  show ?case
  proof (cases "lower c = lower p")
    case True
    have "(\<exists>m. c # cs = m @ r \<and> map lower m = map lower (p # ps)) \<longleftrightarrow>
          (\<exists>m'. cs = m' @ r \<and> map lower m' = map lower ps)"
      using True by (auto simp add: Cons_eq_append_conv map_eq_Cons_conv)
    with True 3 show ?thesis by simp
  next
    case False
    then show ?thesis by (auto simp add: Cons_eq_append_conv map_eq_Cons_conv)
  qed
qed

lemma rx_search_iff:
  "rx_search P prev t \<longleftrightarrow>
     (\<exists>pre r. t = pre @ r \<and> P (if pre = [] then prev else Some (last pre)) r)"
proof (induction t arbitrary: prev)
  case Nil
  then show ?case by simp
next
  case (Cons c cs)
  have "(\<exists>pre r. c # cs = pre @ r \<and> P (if pre = [] then prev else Some (last pre)) r) \<longleftrightarrow>
        (P prev (c # cs) \<or>
         (\<exists>pre' r. cs = pre' @ r \<and> P (if pre' = [] then Some c else Some (last pre')) r))"
    (is "?L \<longleftrightarrow> ?R")
  proof
    assume ?L
    then obtain pre r where h: "c # cs = pre @ r"
      "P (if pre = [] then prev else Some (last pre)) r" by blast
    show ?R
    proof (cases pre)
      case Nil
      with h show ?thesis by simp
    next
      case (Cons x pre')
      with h have "cs = pre' @ r" "P (if pre' = [] then Some c else Some (last pre')) r"
        by auto
      then show ?thesis by blast
    qed
  next
    assume ?R
    then show ?L
    proof
      assume "P prev (c # cs)"
      then have "c # cs = [] @ (c # cs) \<and> P (if [] = ([]::string) then prev else Some (last [])) (c # cs)"
        by simp
      then show ?L by blast
    next
      assume "\<exists>pre' r. cs = pre' @ r \<and> P (if pre' = [] then Some c else Some (last pre')) r"
      then obtain pre' r where h: "cs = pre' @ r"
        "P (if pre' = [] then Some c else Some (last pre')) r" by blast
      then have "c # cs = (c # pre') @ r \<and>
        P (if c # pre' = [] then prev else Some (last (c # pre'))) r"
        by auto
      then show ?L by blast
    qed
  qed
  with Cons show ?case by simp
qed

lemma hd_word_of_lower_eq:
  assumes "map lower m = w" "w \<noteq> []" "is_word (hd w)"
  shows "m \<noteq> [] \<and> is_word (hd m)"
proof -
  from assms(1,2) have "m \<noteq> []" by auto
  moreover from this assms(1) have "hd w = lower (hd m)" by (cases m) auto
  ultimately show ?thesis using assms(3) by (simp add: is_word_lower)
qed

lemma bnd_before_word:
  "is_word c \<Longrightarrow> bnd prev (c # cs) \<longleftrightarrow> (case prev of None \<Rightarrow> True | Some x \<Rightarrow> \<not> is_word x)"
  by (simp add: bnd_def split: option.splits)

lemma bnd_after_word:
  "is_word c \<Longrightarrow> bnd (Some c) r \<longleftrightarrow> (r = [] \<or> \<not> is_word (hd r))"
  by (cases r) (simp_all add: bnd_def)

lemma alt_then_bnd_iff:
  assumes "\<forall>w \<in> set ws. plain w"
  shows "alt_then_bnd ws t \<longleftrightarrow>
    (\<exists>w \<in> set ws. \<exists>m r. t = m @ r \<and> map lower m = w \<and> (r = [] \<or> \<not> is_word (hd r)))"
proof -
  have "alt_then_bnd ws t \<longleftrightarrow>
    (\<exists>w \<in> set ws. \<exists>r. lit w t = Some r \<and> bnd (Some (last w)) r)"
    by (auto simp add: alt_then_bnd_def list_ex_iff split: option.splits)
  also have "\<dots> \<longleftrightarrow>
    (\<exists>w \<in> set ws. \<exists>m r. t = m @ r \<and> map lower m = w \<and> (r = [] \<or> \<not> is_word (hd r)))"
  proof (rule bex_cong [OF refl])
    fix w assume "w \<in> set ws"
    with assms have p: "plain w" by blast
    then have lw: "map lower w = w" and wl: "is_word (last w)" by (simp_all add: plain_def)
    show "(\<exists>r. lit w t = Some r \<and> bnd (Some (last w)) r) \<longleftrightarrow>
      (\<exists>m r. t = m @ r \<and> map lower m = w \<and> (r = [] \<or> \<not> is_word (hd r)))"
      unfolding lit_Some_iff lw bnd_after_word [OF wl] by blast
  qed
  finally show ?thesis .
qed

lemma test_start_word_iff:
  assumes "\<forall>w \<in> set ws. plain w"
  shows "test_start_word ws t \<longleftrightarrow> starts_with_word ws t"
proof -
  have "(\<exists>m r. t = m @ r \<and> map lower m = w \<and> (r = [] \<or> \<not> is_word (hd r))) \<longleftrightarrow>
        (\<exists>post. map lower t = w @ post \<and> (post = [] \<or> \<not> is_word (hd post)))" for w
  proof
    assume "\<exists>m r. t = m @ r \<and> map lower m = w \<and> (r = [] \<or> \<not> is_word (hd r))"
    then obtain m r where h: "t = m @ r" "map lower m = w" "r = [] \<or> \<not> is_word (hd r)"
      by blast
    then have "map lower t = w @ map lower r" by simp
    moreover have "map lower r = [] \<or> \<not> is_word (hd (map lower r))"
      using h(3) by (cases r) (simp_all add: is_word_lower)
    ultimately show "\<exists>post. map lower t = w @ post \<and> (post = [] \<or> \<not> is_word (hd post))"
      by blast
  next
    assume "\<exists>post. map lower t = w @ post \<and> (post = [] \<or> \<not> is_word (hd post))"
    then obtain post where h: "map lower t = w @ post" "post = [] \<or> \<not> is_word (hd post)"
      by blast
    from h(1) obtain m r where mr: "t = m @ r" "map lower m = w" "map lower r = post"
      by (metis map_eq_append_conv)
    have "r = [] \<or> \<not> is_word (hd r)"
      using h(2) mr(3) by (cases r) (auto simp add: is_word_lower)
    with mr show "\<exists>m r. t = m @ r \<and> map lower m = w \<and> (r = [] \<or> \<not> is_word (hd r))"
      by blast
  qed
  then show ?thesis
    by (simp add: test_start_word_def alt_then_bnd_iff [OF assms] starts_with_word_def)
qed

lemma last_word_lower: "xs \<noteq> [] \<Longrightarrow> is_word (last (map lower xs)) = is_word (last xs)"
  by (simp add: last_map is_word_lower)

lemma hd_word_lower: "xs \<noteq> [] \<Longrightarrow> is_word (hd (map lower xs)) = is_word (hd xs)"
  by (simp add: hd_map is_word_lower)

lemma test_words_iff:
  assumes "\<forall>w \<in> set ws. plain w"
  shows "test_words ws t \<longleftrightarrow> contains_word ws t"
proof
  assume "test_words ws t"
  then obtain pre r where t: "t = pre @ r"
    and b: "bnd (if pre = [] then None else Some (last pre)) r"
    and a: "alt_then_bnd ws r"
    unfolding test_words_def rx_search_iff by blast
  from a obtain w m r' where w: "w \<in> set ws" and r: "r = m @ r'" and m: "map lower m = w"
    and after: "r' = [] \<or> \<not> is_word (hd r')"
    unfolding alt_then_bnd_iff [OF assms] by blast
  from assms w have pw: "plain w" by blast
  then have "m \<noteq> [] \<and> is_word (hd m)"
    using hd_word_of_lower_eq [OF m] by (simp add: plain_def)
  then obtain c cs where mc: "m = c # cs" "is_word c" by (cases m) auto
  from b have before: "pre = [] \<or> \<not> is_word (last pre)"
    unfolding r mc by (simp add: bnd_before_word [OF mc(2)] split: if_splits)
  have "map lower t = map lower pre @ w @ map lower r'"
    using t r m by simp
  moreover have "map lower pre = [] \<or> \<not> is_word (last (map lower pre))"
    using before by (cases "pre = []") (simp_all add: last_word_lower)
  moreover have "map lower r' = [] \<or> \<not> is_word (hd (map lower r'))"
    using after by (cases "r' = []") (simp_all add: hd_word_lower)
  ultimately show "contains_word ws t"
    unfolding contains_word_def using w by blast
next
  assume "contains_word ws t"
  then obtain w pre' post' where w: "w \<in> set ws"
    and eq: "map lower t = pre' @ w @ post'"
    and before': "pre' = [] \<or> \<not> is_word (last pre')"
    and after': "post' = [] \<or> \<not> is_word (hd post')"
    unfolding contains_word_def by blast
  from eq obtain pre rest where t1: "t = pre @ rest" "map lower pre = pre'"
    "map lower rest = w @ post'"
    by (metis map_eq_append_conv)
  from t1(3) obtain m r' where t2: "rest = m @ r'" "map lower m = w" "map lower r' = post'"
    by (metis map_eq_append_conv)
  from assms w have pw: "plain w" by blast
  then have "m \<noteq> [] \<and> is_word (hd m)"
    using hd_word_of_lower_eq [OF t2(2)] by (simp add: plain_def)
  then obtain c cs where mc: "m = c # cs" "is_word c" by (cases m) auto
  have before: "pre = [] \<or> \<not> is_word (last pre)"
    using before' t1(2) by (cases "pre = []") (auto simp add: last_word_lower)
  have after: "r' = [] \<or> \<not> is_word (hd r')"
    using after' t2(3) by (cases "r' = []") (auto simp add: hd_word_lower)
  have "bnd (if pre = [] then None else Some (last pre)) rest"
    unfolding t2(1) mc using before by (auto simp add: bnd_before_word [OF mc(2)])
  moreover have "alt_then_bnd ws rest"
    unfolding alt_then_bnd_iff [OF assms] using w t2 after by blast
  ultimately show "test_words ws t"
    unfolding test_words_def rx_search_iff using t1(1) by blast
qed

lemma test_whole_iff:
  assumes "\<forall>w \<in> set ws. map lower w = w"
  shows "test_whole ws t \<longleftrightarrow> map lower t \<in> set ws"
  using assms by (auto simp add: test_whole_def list_ex_iff lit_Some_iff)

lemma plain_action_verbs: "\<forall>w \<in> set actionVerbs. plain w"
  by code_simp

lemma plain_goal_words:
  "\<forall>w \<in> set [''objective'', ''goal'', ''purpose'', ''aim'', ''want to'', ''need to'']. plain w"
  by code_simp

lemma plain_scope_words: "\<forall>w \<in> set [''app'', ''system'', ''platform'']. plain w"
  by code_simp

lemma lower_broad:
  "\<forall>w \<in> set [''build an app'', ''build a app'', ''create a system'', ''make a platform'',
     ''develop everything'']. map lower w = w"
  by code_simp

lemma hasUnrealisticScope_iff: "hasUnrealisticScope p \<longleftrightarrow> unrealistic p"
  unfolding hasUnrealisticScope_def unrealistic_def Let_def
    test_whole_iff [OF lower_broad] test_words_iff [OF plain_scope_words]
  by auto

text \<open>
  C5. The Objective analyzer sets \<open>goalClarity\<close> exactly when the trimmed prompt starts
  with one of the ten action verbs or the prompt contains one of the objective keywords as
  a word; it sets \<open>achievable\<close> exactly when the prompt is not unrealistic, that is, the
  trimmed prompt is not one of the five bare requests (compared without case) and the
  prompt is not shorter than 30 characters while containing \<open>app\<close>, \<open>system\<close> or
  \<open>platform\<close> as a word; and the score is 40 for clarity plus 30 for measurability
  plus 30 for achievability.
\<close>

theorem objective_analysis:
  "goalClarity (analyzeObjective p) =
     (starts_with_word actionVerbs (trim p) \<or>
      contains_word [''objective'', ''goal'', ''purpose'', ''aim'', ''want to'', ''need to''] p)
   \<and> achievable (analyzeObjective p) = (\<not> unrealistic p)
   \<and> score (analyzeObjective p) =
       40 * of_bool (goalClarity (analyzeObjective p)) +
       30 * of_bool (measurable (analyzeObjective p)) +
       30 * of_bool (achievable (analyzeObjective p))"
  by (simp add: analyzeObjective_def Let_def objectiveScore_def weight_def
      test_start_word_iff [OF plain_action_verbs] test_words_iff [OF plain_goal_words]
      hasUnrealisticScope_iff)

lemma build_app_traits:
  "goalClarity (analyzeObjective ''Build an App'') \<and>
   \<not> measurable (analyzeObjective ''Build an App'') \<and>
   \<not> achievable (analyzeObjective ''Build an App'')"
  by code_simp

theorem objective_analysis_witness:
  "unrealistic ''Build an App''
   \<and> (starts_with_word actionVerbs (trim ''Build an App'') \<or>
      contains_word [''objective'', ''goal'', ''purpose'', ''aim'', ''want to'', ''need to'']
        ''Build an App'')
   \<and> score (analyzeObjective ''Build an App'') = 40"
  using objective_analysis [of "''Build an App''"] build_app_traits by simp

subsection \<open>The heading lines of the synthesized prompt\<close>

lemma split_nl_ne: "split_nl s \<noteq> []"
  by (induction s) (auto split: list.splits)

lemma split_nl_Cons:
  "split_nl (c # cs) =
     (if c = CHR 0x0A then [] # split_nl cs
      else (c # hd (split_nl cs)) # tl (split_nl cs))"
  using split_nl_ne [of cs] by (cases "split_nl cs") auto

lemma hd_split_nl: "hd (split_nl s) = takeWhile (\<lambda>x. x \<noteq> CHR 0x0A) s"
  by (induction s) (simp_all add: split_nl_Cons del: split_nl.simps(2))

lemma split_nl_set: "l \<in> set (split_nl s) \<Longrightarrow> set l \<subseteq> set s"
proof (induction s arbitrary: l)
  case Nil
  then show ?case by simp
next
  case (Cons c cs)
  obtain x xs where sp: "split_nl cs = x # xs"
    using split_nl_ne [of cs] by (cases "split_nl cs") auto
  have "set x \<subseteq> set cs" "\<And>y. y \<in> set xs \<Longrightarrow> set y \<subseteq> set cs"
    using Cons.IH sp by auto
  with Cons.prems sp show ?case
    by (auto split: if_splits)
qed

lemma header_lines_Nil: "header_lines [] = []"
  by (simp add: header_lines_def)

lemma mid_lines_Nil: "mid_lines [] = []"
  by (simp add: mid_lines_def)

lemma header_lines_Cons:
  "header_lines (c # s) =
     (if c = CHR 0x0A then header_lines s
      else if c = CHR ''#'' then (c # takeWhile (\<lambda>x. x \<noteq> CHR 0x0A) s) # mid_lines s
      else mid_lines s)"
  by (simp add: header_lines_def mid_lines_def split_nl_Cons hd_split_nl
      del: split_nl.simps(2))

lemma mid_lines_Cons:
  "mid_lines (c # s) = (if c = CHR 0x0A then header_lines s else mid_lines s)"
  by (simp add: header_lines_def mid_lines_def split_nl_Cons del: split_nl.simps(2))

lemma free_block:
  "CHR ''#'' \<notin> set v \<Longrightarrow>
   header_lines (v @ CHR 0x0A # s) = header_lines s \<and>
   mid_lines (v @ CHR 0x0A # s) = header_lines s"
  by (induction v) (auto simp add: header_lines_Cons mid_lines_Cons)

lemma free_end:
  "CHR ''#'' \<notin> set v \<Longrightarrow> header_lines v = [] \<and> mid_lines v = []"
  by (induction v)
     (auto simp add: header_lines_Cons mid_lines_Cons header_lines_Nil mid_lines_Nil)

lemma section_headers_of_header_lines:
  "section_headers s = filter (\<lambda>l. take 3 l = ''## '') (header_lines s)"
proof -
  have "(take 3 l = ''## '') = ((l \<noteq> [] \<and> hd l = CHR ''#'') \<and> take 3 l = ''## '')" for l
    by (cases l) auto
  then show ?thesis
    by (simp add: section_headers_def header_lines_def)
qed

lemma rtrim_append: "has_ink x \<Longrightarrow> rtrim (a @ x) = a @ rtrim x"
proof -
  assume "has_ink x"
  then obtain c where "c \<in> set (rev x)" "\<not> is_space c"
    by (auto simp add: has_ink_def)
  then have "dropWhile is_space (rev x @ rev a) = dropWhile is_space (rev x) @ rev a"
    by (rule dropWhile_append1)
  then show ?thesis by (simp add: rtrim_def)
qed

lemma has_ink_append: "has_ink (a @ b) = (has_ink a \<or> has_ink b)"
  by (auto simp add: has_ink_def)

lemma set_rtrim: "set (rtrim s) \<subseteq> set s"
  by (auto simp add: rtrim_def dest: set_dropWhileD)

lemma trim_ink_start: "\<not> is_space c \<Longrightarrow> trim (c # s) = rtrim (c # s)"
  by (simp add: trim_def rtrim_def)

lemma rtrim_Cons_ink: "\<not> is_space c \<Longrightarrow> rtrim (c # s) = c # rtrim s"
proof -
  assume c: "\<not> is_space c"
  show ?thesis
  proof (cases "has_ink s")
    case True
    then show ?thesis using rtrim_append [of s "[c]"] by simp
  next
    case False
    then have all: "\<And>x. x \<in> set (rev s) \<Longrightarrow> is_space x" by (simp add: has_ink_def)
    have "dropWhile is_space (rev s @ [c]) = dropWhile is_space [c]"
      using all by (rule dropWhile_append2)
    moreover have "dropWhile is_space (rev s) = []"
      using all by simp
    ultimately show ?thesis using c by (simp add: rtrim_def)
  qed
qed

lemma lit_set: "lit w t = Some r \<Longrightarrow> set r \<subseteq> set t"
  by (auto simp add: lit_Some_iff)

lemma first_alt_Some: "first_alt f ws = Some g \<Longrightarrow> \<exists>w \<in> set ws. f w = Some g"
proof (induction ws)
  case Nil
  then show ?case by simp
next
  case (Cons w ws)
  show ?case
  proof (cases "f w")
    case None
    with Cons show ?thesis by simp
  next
    case (Some a)
    with Cons.prems have "f w = Some g" by simp
    then show ?thesis by simp
  qed
qed

lemma first_match_Some:
  "first_match m t = Some g \<Longrightarrow> \<exists>r. set r \<subseteq> set t \<and> m r = Some g"
proof (induction t)
  case Nil
  then show ?case by auto
next
  case (Cons c cs)
  show ?case
  proof (cases "m (c # cs)")
    case None
    with Cons obtain r where "set r \<subseteq> set cs" "m r = Some g" by auto
    then have "set r \<subseteq> set (c # cs) \<and> m r = Some g" by auto
    then show ?thesis by blast
  next
    case (Some a)
    with Cons.prems have "m (c # cs) = Some g" by simp
    then show ?thesis by blast
  qed
qed

lemma star_space_Some:
  "star_space k t = Some g \<Longrightarrow> \<exists>r. set r \<subseteq> set t \<and> k r = Some g"
proof (induction t)
  case Nil
  then show ?case by auto
next
  case (Cons c cs)
  show ?case
  proof (cases "is_space c \<and> star_space k cs \<noteq> None")
    case True
    with Cons.prems have "star_space k cs = Some g" by (auto split: option.splits)
    with Cons.IH obtain r where "set r \<subseteq> set cs" "k r = Some g" by auto
    then have "set r \<subseteq> set (c # cs) \<and> k r = Some g" by auto
    then show ?thesis by blast
  next
    case False
    with Cons.prems have "k (c # cs) = Some g" by (auto split: option.splits if_splits)
    then show ?thesis by blast
  qed
qed

lemma plus_space_Some:
  "plus_space k t = Some g \<Longrightarrow> \<exists>r. set r \<subseteq> set t \<and> k r = Some g"
proof (cases t)
  case Nil
  assume "plus_space k t = Some g"
  with Nil show ?thesis by simp
next
  case (Cons c cs)
  assume "plus_space k t = Some g"
  with Cons have "star_space k cs = Some g" by (auto split: if_splits)
  from star_space_Some [OF this] obtain r where "set r \<subseteq> set cs" "k r = Some g"
    by blast
  with Cons have "set r \<subseteq> set t \<and> k r = Some g" by auto
  then show ?thesis by blast
qed

lemma line_group_set: "line_group t = Some g \<Longrightarrow> set g \<subseteq> set t"
  by (auto simp add: line_group_def Let_def split: if_splits dest: set_takeWhileD)

lemma dot_group_set: "dot_group t = Some g \<Longrightarrow> set g \<subseteq> set t"
  by (auto simp add: dot_group_def Let_def split: if_splits dest: set_takeWhileD)

lemma match_label_set:
  assumes "match_label ls t = Some g"
  shows "set g \<subseteq> set t"
proof -
  define f where "f = (\<lambda>r l. case lit (l @ '':'') r of None \<Rightarrow> None
                        | Some r' \<Rightarrow> star_space line_group r')"
  from assms have "first_match (\<lambda>r. first_alt (f r) ls) t = Some g"
    by (simp add: match_label_def f_def)
  from first_match_Some [OF this] obtain r where r: "set r \<subseteq> set t"
    and "first_alt (f r) ls = Some g" by blast
  from first_alt_Some [OF this(2)] obtain l where "f r l = Some g" by blast
  then obtain r' where r': "lit (l @ '':'') r = Some r'" "star_space line_group r' = Some g"
    by (auto simp add: f_def split: option.splits)
  from star_space_Some [OF r'(2)] obtain r'' where r'': "set r'' \<subseteq> set r'"
    "line_group r'' = Some g" by blast
  from lit_set [OF r'(1)] line_group_set [OF r''(2)] r r''(1) show ?thesis
    by blast
qed

lemma match_action_set:
  assumes "match_action vs t = Some (g1, g2)"
  shows "set g1 \<subseteq> set t \<and> set g2 \<subseteq> set t"
proof -
  define f where "f = (\<lambda>v. case lit v t of None \<Rightarrow> None
      | Some r \<Rightarrow> (case plus_space dot_group r of None \<Rightarrow> None
                  | Some g \<Rightarrow> Some (take (length v) t, g)))"
  from assms have "first_alt f vs = Some (g1, g2)"
    by (simp add: match_action_def f_def)
  from first_alt_Some [OF this] obtain v where "f v = Some (g1, g2)" by blast
  then obtain r where r: "lit v t = Some r" "plus_space dot_group r = Some g2"
    "g1 = take (length v) t"
    by (auto simp add: f_def split: option.splits)
  from plus_space_Some [OF r(2)] obtain r' where r': "set r' \<subseteq> set r"
    "dot_group r' = Some g2" by blast
  from lit_set [OF r(1)] dot_group_set [OF r'(2)] r'(1) have "set g2 \<subseteq> set t"
    by blast
  moreover have "set g1 \<subseteq> set t"
    unfolding r(3) by (rule set_take_subset)
  ultimately show ?thesis by simp
qed

lemma join_free:
  "CHR ''#'' \<notin> set sep \<Longrightarrow> \<forall>x \<in> set xs. CHR ''#'' \<notin> set x \<Longrightarrow> CHR ''#'' \<notin> set (join sep xs)"
  by (induction sep xs rule: join.induct) auto

lemma technical_free: "CHR ''#'' \<notin> set (extractOrInferTechnical p)"
  by (simp add: extractOrInferTechnical_def Let_def pushIf_def)

lemma context_free:
  assumes "CHR ''#'' \<notin> set p"
  shows "CHR ''#'' \<notin> set (extractOrInferContext p)"
proof (cases "match_label [''background'', ''context'', ''currently'', ''given'', ''situation''] p")
  case None
  then show ?thesis
    using technical_free [of p] by (simp add: extractOrInferContext_def)
next
  case (Some g)
  from match_label_set [OF Some] assms have "CHR ''#'' \<notin> set g" by blast
  with Some show ?thesis by (simp add: extractOrInferContext_def)
qed

lemma objective_free:
  assumes "CHR ''#'' \<notin> set p"
  shows "CHR ''#'' \<notin> set (extractOrInferObjective p)"
proof (cases "match_action actionVerbs p")
  case (Some gs)
  obtain g1 g2 where gs: "gs = (g1, g2)" by (cases gs)
  from match_action_set [OF Some [unfolded gs]] assms
  have "CHR ''#'' \<notin> set g1" "CHR ''#'' \<notin> set g2" by blast+
  with Some gs show ?thesis by (simp add: extractOrInferObjective_def)
next
  case None
  show ?thesis
  proof (cases "match_label [''objective'', ''goal'', ''purpose''] p")
    case (Some g)
    from match_label_set [OF Some] assms have "CHR ''#'' \<notin> set g" by blast
    with None Some show ?thesis by (simp add: extractOrInferObjective_def)
  next
    case no: None
    have "hd (split_nl p) \<in> set (split_nl p)"
      using split_nl_ne by simp
    then have "set (hd (split_nl p)) \<subseteq> set p"
      by (rule split_nl_set)
    with assms have a: "CHR ''#'' \<notin> set (hd (split_nl p))" by blast
    have "set (take 100 p) \<subseteq> set p" by (rule set_take_subset)
    with assms have b: "CHR ''#'' \<notin> set (take 100 p)" by blast
    from None no a b show ?thesis
      by (simp add: extractOrInferObjective_def Let_def)
  qed
qed

lemma tone_free: "CHR ''#'' \<notin> set (extractToneGuidance p)"
  by (simp add: extractToneGuidance_def)

lemma audience_free: "CHR ''#'' \<notin> set (extractAudienceDefinition p)"
  by (simp add: extractAudienceDefinition_def)

lemma deliverables_free: "CHR ''#'' \<notin> set (extractDeliverables p)"
  by (simp add: extractDeliverables_def Let_def pushIf_def)

lemma join_dash:
  "xs \<noteq> [] \<Longrightarrow> \<exists>r. join sep (map (\<lambda>line. ''- '' @ line) xs) = CHR ''-'' # r"
proof (cases xs)
  case Nil
  assume "xs \<noteq> []"
  with Nil show ?thesis by simp
next
  case (Cons x ys)
  then show ?thesis by (cases ys) simp_all
qed

lemma requirements_shape:
  "\<exists>r. extractOrInferRequirements p = CHR ''-'' # r \<and>
       (CHR ''#'' \<notin> set p \<longrightarrow> CHR ''#'' \<notin> set r)"
proof -
  define ls where "ls = drop 1 (filter (\<lambda>line. trim line \<noteq> []) (split_nl p))"
  define out where "out = join ''\<newline>'' (map (\<lambda>line. ''- '' @ line) ls)"
  show ?thesis
  proof (cases "length (filter (\<lambda>line. trim line \<noteq> []) (split_nl p)) > 1")
    case True
    then have E: "extractOrInferRequirements p = out"
      by (simp only: extractOrInferRequirements_def Let_def ls_def out_def if_True)
    from True have "ls \<noteq> []" by (simp add: ls_def)
    from join_dash [OF this] obtain r where r: "out = CHR ''-'' # r"
      unfolding out_def by blast
    have "CHR ''#'' \<notin> set r" if f: "CHR ''#'' \<notin> set p"
    proof -
      have "\<forall>x \<in> set (map (\<lambda>line. ''- '' @ line) ls). CHR ''#'' \<notin> set x"
      proof
        fix x assume "x \<in> set (map (\<lambda>line. ''- '' @ line) ls)"
        then obtain l where l: "l \<in> set ls" "x = ''- '' @ l" by auto
        then have "l \<in> set (split_nl p)"
          unfolding ls_def by (auto dest: in_set_dropD)
        then have "set l \<subseteq> set p" by (rule split_nl_set)
        with f l(2) show "CHR ''#'' \<notin> set x" by auto
      qed
      then have "CHR ''#'' \<notin> set out"
        unfolding out_def by (intro join_free) auto
      with r show ?thesis by simp
    qed
    with E r show ?thesis by blast
  next
    case False
    then show ?thesis
      by (simp add: extractOrInferRequirements_def Let_def)
  qed
qed

lemmas line_scan = header_lines_Cons mid_lines_Cons header_lines_Nil mid_lines_Nil

lemma free_block_start:
  "CHR ''#'' \<notin> set v \<Longrightarrow> header_lines (v @ CHR 0x0A # s) = header_lines s"
  by (simp add: free_block)

lemma free_block_mid:
  "CHR ''#'' \<notin> set v \<Longrightarrow> mid_lines (v @ CHR 0x0A # s) = header_lines s"
  by (simp add: free_block)

lemma sec_context:
  assumes "CHR ''#'' \<notin> set p"
  shows "header_lines (''## CONTEXT\<newline>\<newline>'' @
       (if \<not> hasBackground (context a)
        then ''Background: '' @ extractOrInferContext p @ ''\<newline>\<newline>''
        else extractOrInferContext p @ ''\<newline>\<newline>'') @
       appendIf (\<not> hasConstraints (context a) \<and> hasTechnicalDetails p)
         (''Constraints: '' @ extractOrInferTechnical p @ ''\<newline>\<newline>'') @ rest)
     = ''## CONTEXT'' # header_lines rest"
  using context_free [OF assms] technical_free [of p]
  by (simp add: appendIf_def line_scan free_block_start free_block_mid)

lemma sec_objective:
  assumes "CHR ''#'' \<notin> set p"
  shows "header_lines (''## OBJECTIVE\<newline>\<newline>'' @
       extractOrInferObjective p @ ''\<newline>\<newline>'' @ rest)
     = ''## OBJECTIVE'' # header_lines rest"
  using objective_free [OF assms]
  by (simp add: line_scan free_block_start free_block_mid)

lemma sec_style:
  "header_lines (''## STYLE\<newline>\<newline>'' @
       appendIf (\<not> formatSpecified (style a))
         ''Format: Provide response as structured, well-organized output\<newline>'' @
       appendIf (\<not> structureDefined (style a))
         ''Structure: Organize with clear sections and headings\<newline>'' @
       ''\<newline>'' @ rest)
     = ''## STYLE'' # header_lines rest"
  by (simp add: appendIf_def line_scan)

lemma sec_tone:
  "header_lines ((case tone a of
          None \<Rightarrow> []
        | Some t \<Rightarrow>
            ''## TONE\<newline>\<newline>'' @
            (if \<not> toneSpecified t
             then ''Use a professional, technical tone appropriate for developers\<newline>\<newline>''
             else extractToneGuidance p @ ''\<newline>\<newline>'')) @ rest)
     = (case tone a of None \<Rightarrow> [] | Some t \<Rightarrow> [''## TONE'']) @ header_lines rest"
  using tone_free [of p]
  by (simp add: line_scan free_block_start free_block_mid split: option.splits)

lemma sec_audience:
  "header_lines ((case audience a of
          None \<Rightarrow> []
        | Some u \<Rightarrow>
            ''## AUDIENCE\<newline>\<newline>'' @
            (if \<not> audienceSpecified u
             then ''Target audience: Senior developers with expertise in the relevant technology stack\<newline>\<newline>''
             else extractAudienceDefinition p @ ''\<newline>\<newline>'')) @ rest)
     = (case audience a of None \<Rightarrow> [] | Some u \<Rightarrow> [''## AUDIENCE'']) @ header_lines rest"
  using audience_free [of p]
  by (simp add: line_scan free_block_start free_block_mid split: option.splits)

lemma sec_response:
  "header_lines ((case response a of
          None \<Rightarrow> []
        | Some r \<Rightarrow>
            ''## RESPONSE\<newline>\<newline>'' @
            ''Expected deliverables:\<newline>'' @
            (if \<not> deliverablesSpecified r
             then ''- Complete implementation\<newline>'' @ ''- Documentation\<newline>'' @
                  ''- Test coverage\<newline>\<newline>''
             else extractDeliverables p @ ''\<newline>\<newline>'')) @ rest)
     = (case response a of None \<Rightarrow> [] | Some r \<Rightarrow> [''## RESPONSE'']) @ header_lines rest"
  using deliverables_free [of p]
  by (simp add: line_scan free_block_start free_block_mid split: option.splits)

lemma sec_requirements:
  assumes "CHR ''#'' \<notin> set p"
  shows "header_lines (''---\<newline>\<newline>'' @ ''# Requirements\<newline>\<newline>'' @
       rtrim (extractOrInferRequirements p)) = [''# Requirements'']"
proof -
  obtain r where r: "extractOrInferRequirements p = CHR ''-'' # r" "CHR ''#'' \<notin> set r"
    using requirements_shape [of p] assms by blast
  have "CHR ''#'' \<notin> set (rtrim r)"
    using r(2) set_rtrim [of r] by blast
  then have "mid_lines (rtrim r) = []"
    by (simp add: free_end)
  moreover have "rtrim (CHR ''-'' # r) = CHR ''-'' # rtrim r"
    by (rule rtrim_Cons_ink) (simp add: is_space_def)
  ultimately show ?thesis
    by (simp add: r(1) line_scan)
qed

lemma requirements_ink: "has_ink (extractOrInferRequirements p)"
proof -
  obtain r where "extractOrInferRequirements p = CHR ''-'' # r"
    using requirements_shape [of p] by blast
  then show ?thesis by (simp add: has_ink_def is_space_def)
qed

lemma trim_heading: "trim (''## CONTEXT\<newline>\<newline>'' @ x) = rtrim (''## CONTEXT\<newline>\<newline>'' @ x)"
  by (simp add: trim_def rtrim_def is_space_def)

lemma header_lines_generate:
  assumes "CHR ''#'' \<notin> set p"
  shows "header_lines (generateCOSTARImprovedPrompt p a) =
     [''## CONTEXT'', ''## OBJECTIVE'', ''## STYLE''] @
     (case tone a of None \<Rightarrow> [] | Some t \<Rightarrow> [''## TONE'']) @
     (case audience a of None \<Rightarrow> [] | Some u \<Rightarrow> [''## AUDIENCE'']) @
     (case response a of None \<Rightarrow> [] | Some r \<Rightarrow> [''## RESPONSE'']) @
     [''# Requirements'']"
  unfolding generateCOSTARImprovedPrompt_def trim_heading
  apply (simp only: rtrim_append has_ink_append requirements_ink simp_thms)
  apply (simp only: sec_context [OF assms] sec_objective [OF assms] sec_style sec_tone
      sec_audience sec_response sec_requirements [OF assms])
  apply simp
  done

lemma takeWhile_line: 
  "takeWhile (\<lambda>x. x \<noteq> CHR 0x0A) (v @ CHR 0x0A # s) = takeWhile (\<lambda>x. x \<noteq> CHR 0x0A) v"
  by (induction v) simp_all

lemma block_split:
  "header_lines (v @ CHR 0x0A # s) = header_lines v @ header_lines s \<and>
   mid_lines (v @ CHR 0x0A # s) = mid_lines v @ header_lines s"
  by (induction v) (simp_all add: line_scan takeWhile_line)

lemmas block_scan = block_split [THEN conjunct1] block_split [THEN conjunct2]

lemma subseq_skip: "subseq hs ys \<Longrightarrow> subseq hs (zs @ ys)"
  by (rule list_emb_append2)

lemma sub_context:
  assumes "subseq hs (header_lines rest)"
  shows "subseq (''## CONTEXT'' # hs) (header_lines (''## CONTEXT\<newline>\<newline>'' @
       (if \<not> hasBackground (context a)
        then ''Background: '' @ extractOrInferContext p @ ''\<newline>\<newline>''
        else extractOrInferContext p @ ''\<newline>\<newline>'') @
       appendIf (\<not> hasConstraints (context a) \<and> hasTechnicalDetails p)
         (''Constraints: '' @ extractOrInferTechnical p @ ''\<newline>\<newline>'') @ rest))"
  using assms by (simp add: appendIf_def line_scan block_scan subseq_skip)

lemma sub_objective:
  assumes "subseq hs (header_lines rest)"
  shows "subseq (''## OBJECTIVE'' # hs) (header_lines (''## OBJECTIVE\<newline>\<newline>'' @
       extractOrInferObjective p @ ''\<newline>\<newline>'' @ rest))"
  using assms by (simp add: line_scan block_scan subseq_skip)

lemma sub_style:
  assumes "subseq hs (header_lines rest)"
  shows "subseq (''## STYLE'' # hs) (header_lines (''## STYLE\<newline>\<newline>'' @
       appendIf (\<not> formatSpecified (style a))
         ''Format: Provide response as structured, well-organized output\<newline>'' @
       appendIf (\<not> structureDefined (style a))
         ''Structure: Organize with clear sections and headings\<newline>'' @
       ''\<newline>'' @ rest))"
  unfolding sec_style using assms by simp

lemma sub_tone:
  assumes "subseq hs (header_lines rest)"
  shows "subseq ((case tone a of None \<Rightarrow> [] | Some t \<Rightarrow> [''## TONE'']) @ hs)
     (header_lines ((case tone a of
          None \<Rightarrow> []
        | Some t \<Rightarrow>
            ''## TONE\<newline>\<newline>'' @
            (if \<not> toneSpecified t
             then ''Use a professional, technical tone appropriate for developers\<newline>\<newline>''
             else extractToneGuidance p @ ''\<newline>\<newline>'')) @ rest))"
  unfolding sec_tone using assms by (simp split: option.splits)

lemma sub_audience:
  assumes "subseq hs (header_lines rest)"
  shows "subseq ((case audience a of None \<Rightarrow> [] | Some u \<Rightarrow> [''## AUDIENCE'']) @ hs)
     (header_lines ((case audience a of
          None \<Rightarrow> []
        | Some u \<Rightarrow>
            ''## AUDIENCE\<newline>\<newline>'' @
            (if \<not> audienceSpecified u
             then ''Target audience: Senior developers with expertise in the relevant technology stack\<newline>\<newline>''
             else extractAudienceDefinition p @ ''\<newline>\<newline>'')) @ rest))"
  unfolding sec_audience using assms by (simp split: option.splits)

lemma sub_response:
  assumes "subseq hs (header_lines rest)"
  shows "subseq ((case response a of None \<Rightarrow> [] | Some r \<Rightarrow> [''## RESPONSE'']) @ hs)
     (header_lines ((case response a of
          None \<Rightarrow> []
        | Some r \<Rightarrow>
            ''## RESPONSE\<newline>\<newline>'' @
            ''Expected deliverables:\<newline>'' @
            (if \<not> deliverablesSpecified r
             then ''- Complete implementation\<newline>'' @ ''- Documentation\<newline>'' @
                  ''- Test coverage\<newline>\<newline>''
             else extractDeliverables p @ ''\<newline>\<newline>'')) @ rest))"
  unfolding sec_response using assms by (simp split: option.splits)

lemma sub_requirements:
  "subseq [''# Requirements''] (header_lines (''---\<newline>\<newline>'' @
     ''# Requirements\<newline>\<newline>'' @ rtrim (extractOrInferRequirements p)))"
  by (simp add: line_scan)

lemma header_lines_generate_sub:
  "subseq
     (''## CONTEXT'' # ''## OBJECTIVE'' # ''## STYLE'' #
      (case tone a of None \<Rightarrow> [] | Some t \<Rightarrow> [''## TONE'']) @
      (case audience a of None \<Rightarrow> [] | Some u \<Rightarrow> [''## AUDIENCE'']) @
      (case response a of None \<Rightarrow> [] | Some r \<Rightarrow> [''## RESPONSE'']) @
      [''# Requirements''])
     (header_lines (generateCOSTARImprovedPrompt p a))"
  unfolding generateCOSTARImprovedPrompt_def trim_heading
  apply (simp only: rtrim_append has_ink_append requirements_ink simp_thms)
  apply (intro sub_context sub_objective sub_style sub_tone sub_audience sub_response
      sub_requirements)
  done

lemma apply_improved:
  "improvedPrompt (applyCOSTARFramework p m) =
     generateCOSTARImprovedPrompt p
       \<lparr> context = analyzeContext p, objective = analyzeObjective p, style = analyzeStyle p,
         tone = (if m = Deep then Some (analyzeTone p) else None),
         audience = (if m = Deep then Some (analyzeAudience p) else None),
         response = (if m = Deep then Some (analyzeResponse p) else None) \<rparr>"
  by (simp add: applyCOSTARFramework_def Let_def)

text \<open>
  C4. The number of section headers is not three for every prompt in fast mode: a prompt
  that is itself a header line is copied into the Objective section, where it is one more
  section header of the synthesized prompt.
\<close>

theorem fast_mode_extra_section_header:
  "section_headers (improvedPrompt (applyCOSTARFramework ''## TONE'' Fast)) =
     [''## CONTEXT'', ''## OBJECTIVE'', ''## TONE'', ''## STYLE'']"
  by code_simp

text \<open>
  C4, amended. For every prompt, the heading lines of the synthesized prompt contain, in
  this order, the section headers CONTEXT, OBJECTIVE and STYLE and, in deep mode, TONE,
  AUDIENCE and RESPONSE, followed by the Requirements heading. When the prompt contains no
  \<open>#\<close>, these are all its heading lines: exactly three section headers in fast mode and
  exactly six in deep mode.
\<close>

theorem synthesized_headers:
  "subseq [''## CONTEXT'', ''## OBJECTIVE'', ''## STYLE'', ''# Requirements'']
     (header_lines (improvedPrompt (applyCOSTARFramework p Fast)))
   \<and> subseq [''## CONTEXT'', ''## OBJECTIVE'', ''## STYLE'', ''## TONE'', ''## AUDIENCE'',
       ''## RESPONSE'', ''# Requirements'']
     (header_lines (improvedPrompt (applyCOSTARFramework p Deep)))
   \<and> (CHR ''#'' \<notin> set p \<longrightarrow>
       header_lines (improvedPrompt (applyCOSTARFramework p Fast)) =
         [''## CONTEXT'', ''## OBJECTIVE'', ''## STYLE'', ''# Requirements''] \<and>
       section_headers (improvedPrompt (applyCOSTARFramework p Fast)) =
         [''## CONTEXT'', ''## OBJECTIVE'', ''## STYLE''] \<and>
       header_lines (improvedPrompt (applyCOSTARFramework p Deep)) =
         [''## CONTEXT'', ''## OBJECTIVE'', ''## STYLE'', ''## TONE'', ''## AUDIENCE'',
          ''## RESPONSE'', ''# Requirements''] \<and>
       section_headers (improvedPrompt (applyCOSTARFramework p Deep)) =
         [''## CONTEXT'', ''## OBJECTIVE'', ''## STYLE'', ''## TONE'', ''## AUDIENCE'',
          ''## RESPONSE''])"
proof -
  define A where "A m = \<lparr> context = analyzeContext p, objective = analyzeObjective p,
      style = analyzeStyle p,
      tone = (if m = Deep then Some (analyzeTone p) else None),
      audience = (if m = Deep then Some (analyzeAudience p) else None),
      response = (if m = Deep then Some (analyzeResponse p) else None) \<rparr>" for m
  have imp: "improvedPrompt (applyCOSTARFramework p m) = generateCOSTARImprovedPrompt p (A m)"
    for m by (simp add: apply_improved A_def)
  have sub_fast: "subseq [''## CONTEXT'', ''## OBJECTIVE'', ''## STYLE'', ''# Requirements'']
     (header_lines (improvedPrompt (applyCOSTARFramework p Fast)))"
    using header_lines_generate_sub [of "A Fast" p] by (simp add: imp) (simp add: A_def)
  have sub_deep: "subseq [''## CONTEXT'', ''## OBJECTIVE'', ''## STYLE'', ''## TONE'',
       ''## AUDIENCE'', ''## RESPONSE'', ''# Requirements'']
     (header_lines (improvedPrompt (applyCOSTARFramework p Deep)))"
    using header_lines_generate_sub [of "A Deep" p] by (simp add: imp) (simp add: A_def)
  have exact: "header_lines (improvedPrompt (applyCOSTARFramework p Fast)) =
         [''## CONTEXT'', ''## OBJECTIVE'', ''## STYLE'', ''# Requirements''] \<and>
       section_headers (improvedPrompt (applyCOSTARFramework p Fast)) =
         [''## CONTEXT'', ''## OBJECTIVE'', ''## STYLE''] \<and>
       header_lines (improvedPrompt (applyCOSTARFramework p Deep)) =
         [''## CONTEXT'', ''## OBJECTIVE'', ''## STYLE'', ''## TONE'', ''## AUDIENCE'',
          ''## RESPONSE'', ''# Requirements''] \<and>
       section_headers (improvedPrompt (applyCOSTARFramework p Deep)) =
         [''## CONTEXT'', ''## OBJECTIVE'', ''## STYLE'', ''## TONE'', ''## AUDIENCE'',
          ''## RESPONSE'']" if f: "CHR ''#'' \<notin> set p"
  proof -
    have fast: "header_lines (improvedPrompt (applyCOSTARFramework p Fast)) =
         [''## CONTEXT'', ''## OBJECTIVE'', ''## STYLE'', ''# Requirements'']"
      by (simp add: imp header_lines_generate [OF f]) (simp add: A_def)
    have deep: "header_lines (improvedPrompt (applyCOSTARFramework p Deep)) =
         [''## CONTEXT'', ''## OBJECTIVE'', ''## STYLE'', ''## TONE'', ''## AUDIENCE'',
          ''## RESPONSE'', ''# Requirements'']"
      by (simp add: imp header_lines_generate [OF f]) (simp add: A_def)
    show ?thesis
      unfolding section_headers_of_header_lines fast deep by simp
  qed
  from sub_fast sub_deep exact show ?thesis by blast
qed

theorem synthesized_headers_witness:
  "CHR ''#'' \<notin> set ''fix the login bug''
   \<and> header_lines (improvedPrompt (applyCOSTARFramework ''fix the login bug'' Fast)) =
       [''## CONTEXT'', ''## OBJECTIVE'', ''## STYLE'', ''# Requirements'']
   \<and> section_headers (improvedPrompt (applyCOSTARFramework ''fix the login bug'' Fast)) =
       [''## CONTEXT'', ''## OBJECTIVE'', ''## STYLE'']
   \<and> section_headers (improvedPrompt (applyCOSTARFramework ''fix the login bug'' Deep)) =
       [''## CONTEXT'', ''## OBJECTIVE'', ''## STYLE'', ''## TONE'', ''## AUDIENCE'',
        ''## RESPONSE'']"
  using synthesized_headers [of "''fix the login bug''"] by simp

subsection \<open>The change recorder\<close>









subsection \<open>The analysis of every prompt, and of the empty prompt\<close>

text \<open>
  Every component score is 100 less the weights of the traits that were not detected (the
  weights of each analyzer add up to 100, so the clamp never applies), and so lies
  between 0 and 100.
\<close>

lemma context_score:
  "score (analyzeContext p) =
     100 - (weight (\<not> hasBackground (analyzeContext p)) 50 +
            weight (\<not> hasConstraints (analyzeContext p)) 30 +
            weight (\<not> hasTechnicalDetails p) 20)"
  by (simp add: analyzeContext_def Let_def contextScore_def weight_def)

lemma objective_score:
  "score (analyzeObjective p) =
     100 - (weight (\<not> goalClarity (analyzeObjective p)) 40 +
            weight (\<not> measurable (analyzeObjective p)) 30 +
            weight (\<not> achievable (analyzeObjective p)) 30)"
  by (simp add: analyzeObjective_def Let_def objectiveScore_def weight_def)

lemma style_score:
  "score (analyzeStyle p) =
     100 - (weight (\<not> formatSpecified (analyzeStyle p)) 40 +
            weight (\<not> structureDefined (analyzeStyle p)) 35 +
            weight (\<not> presentationClear (analyzeStyle p)) 25)"
  by (simp add: analyzeStyle_def Let_def styleScore_def weight_def)

lemma tone_score:
  "score (analyzeTone p) =
     100 - (weight (\<not> toneSpecified (analyzeTone p)) 50 +
            weight (\<not> voiceConsistency (analyzeTone p)) 25 +
            weight (formalityLevel (analyzeTone p) = Unspecified) 25)"
  by (simp add: analyzeTone_def Let_def toneScore_def weight_def)

lemma audience_score:
  "score (analyzeAudience p) =
     100 - (weight (\<not> audienceSpecified (analyzeAudience p)) 40 +
            weight (\<not> skillLevelDefined (analyzeAudience p)) 35 +
            weight (\<not> needsAddressed (analyzeAudience p)) 25)"
  by (simp add: analyzeAudience_def Let_def audienceScore_def weight_def)

lemma response_score:
  "score (analyzeResponse p) =
     100 - (weight (\<not> outputFormatClear (analyzeResponse p)) 40 +
            weight (\<not> deliverablesSpecified (analyzeResponse p)) 40 +
            weight (\<not> examplesProvided (analyzeResponse p)) 20)"
  by (simp add: analyzeResponse_def Let_def responseScore_def weight_def)

lemma scores_in_range:
  "0 \<le> score (analyzeContext p) \<and> score (analyzeContext p) \<le> 100"
  "0 \<le> score (analyzeObjective p) \<and> score (analyzeObjective p) \<le> 100"
  "0 \<le> score (analyzeStyle p) \<and> score (analyzeStyle p) \<le> 100"
  "0 \<le> score (analyzeTone p) \<and> score (analyzeTone p) \<le> 100"
  "0 \<le> score (analyzeAudience p) \<and> score (analyzeAudience p) \<le> 100"
  "0 \<le> score (analyzeResponse p) \<and> score (analyzeResponse p) \<le> 100"
  unfolding context_score objective_score style_score tone_score audience_score
    response_score
  by (simp_all add: weight_def)

text \<open>One issue for every primary trait that was not detected, and as many suggestions or more.\<close>

lemma context_lists:
  "length (issues (analyzeContext p)) =
     length (filter Not [hasBackground (analyzeContext p), hasConstraints (analyzeContext p)])
   \<and> length (issues (analyzeContext p)) \<le> length (suggestions (analyzeContext p))"
  by (simp add: analyzeContext_def Let_def length_pushIf)

lemma objective_lists:
  "length (issues (analyzeObjective p)) =
     length (filter Not [goalClarity (analyzeObjective p), measurable (analyzeObjective p),
       achievable (analyzeObjective p)])
   \<and> length (issues (analyzeObjective p)) \<le> length (suggestions (analyzeObjective p))"
  by (simp add: analyzeObjective_def Let_def length_pushIf)

lemma style_lists:
  "length (issues (analyzeStyle p)) =
     length (filter Not [formatSpecified (analyzeStyle p), structureDefined (analyzeStyle p)])
   \<and> length (issues (analyzeStyle p)) \<le> length (suggestions (analyzeStyle p))"
  by (simp add: analyzeStyle_def Let_def length_pushIf)

lemma tone_lists:
  "length (issues (analyzeTone p)) = length (filter Not [toneSpecified (analyzeTone p)])
   \<and> length (issues (analyzeTone p)) \<le> length (suggestions (analyzeTone p))"
  by (simp add: analyzeTone_def Let_def length_pushIf)

lemma audience_lists:
  "length (issues (analyzeAudience p)) =
     length (filter Not [audienceSpecified (analyzeAudience p)])
   \<and> length (issues (analyzeAudience p)) \<le> length (suggestions (analyzeAudience p))"
  by (simp add: analyzeAudience_def Let_def length_pushIf)

lemma response_lists:
  "length (issues (analyzeResponse p)) =
     length (filter Not [outputFormatClear (analyzeResponse p),
       deliverablesSpecified (analyzeResponse p)])
   \<and> length (issues (analyzeResponse p)) \<le> length (suggestions (analyzeResponse p))"
  by (simp add: analyzeResponse_def Let_def length_pushIf)

lemma changes_nonempty: "changesSummary (applyCOSTARFramework p m) \<noteq> []"
  by (simp add: applyCOSTARFramework_def generateCOSTARChangesSummary_def Let_def)

text \<open>The empty prompt, evaluated.\<close>

lemma empty_traits:
  "\<not> hasBackground (analyzeContext '''') \<and> \<not> hasConstraints (analyzeContext '''') \<and>
   \<not> hasTechnicalDetails '''' \<and>
   \<not> goalClarity (analyzeObjective '''') \<and> \<not> measurable (analyzeObjective '''') \<and>
   achievable (analyzeObjective '''') \<and>
   \<not> formatSpecified (analyzeStyle '''') \<and> \<not> structureDefined (analyzeStyle '''') \<and>
   \<not> presentationClear (analyzeStyle '''') \<and>
   \<not> toneSpecified (analyzeTone '''') \<and> \<not> voiceConsistency (analyzeTone '''') \<and>
   formalityLevel (analyzeTone '''') = Unspecified \<and>
   \<not> audienceSpecified (analyzeAudience '''') \<and> \<not> skillLevelDefined (analyzeAudience '''') \<and>
   \<not> needsAddressed (analyzeAudience '''') \<and>
   \<not> outputFormatClear (analyzeResponse '''') \<and>
   \<not> deliverablesSpecified (analyzeResponse '''') \<and>
   \<not> examplesProvided (analyzeResponse '''')"
  by code_simp

lemma empty_scores:
  "score (analyzeContext '''') = 0 \<and> score (analyzeObjective '''') = 30 \<and>
   score (analyzeStyle '''') = 0 \<and> score (analyzeTone '''') = 0 \<and>
   score (analyzeAudience '''') = 0 \<and> score (analyzeResponse '''') = 0"
  unfolding context_score objective_score style_score tone_score audience_score
    response_score
  by (simp add: empty_traits weight_def)

lemma empty_overall:
  "overallScore (applyCOSTARFramework '''' Fast) = 11 \<and>
   overallScore (applyCOSTARFramework '''' Deep) = 6"
  by (simp add: applyCOSTARFramework_def calculateCOSTARScore_def Let_def empty_scores
      weighted_values Math_round_def floor_eq_iff)

lemma empty_fast_lines:
  "split_nl (improvedPrompt (applyCOSTARFramework '''' Fast)) =
     [''## CONTEXT'', '''',
      ''Background: Development project requiring implementation of new functionality'',
      '''',
      ''## OBJECTIVE'', '''', '''', '''',
      ''## STYLE'', '''',
      ''Format: Provide response as structured, well-organized output'',
      ''Structure: Organize with clear sections and headings'', '''',
      ''---'', '''',
      ''# Requirements'', '''',
      ''- '', ''- [Add specific requirements based on objective]'']"
  by code_simp

lemma empty_deep_lines:
  "split_nl (improvedPrompt (applyCOSTARFramework '''' Deep)) =
     [''## CONTEXT'', '''',
      ''Background: Development project requiring implementation of new functionality'',
      '''',
      ''## OBJECTIVE'', '''', '''', '''',
      ''## STYLE'', '''',
      ''Format: Provide response as structured, well-organized output'',
      ''Structure: Organize with clear sections and headings'', '''',
      ''## TONE'', '''',
      ''Use a professional, technical tone appropriate for developers'', '''',
      ''## AUDIENCE'', '''',
      ''Target audience: Senior developers with expertise in the relevant technology stack'',
      '''',
      ''## RESPONSE'', '''',
      ''Expected deliverables:'', ''- Complete implementation'', ''- Documentation'',
      ''- Test coverage'', '''',
      ''---'', '''',
      ''# Requirements'', '''',
      ''- '', ''- [Add specific requirements based on objective]'']"
  by code_simp

lemma empty_filled:
  "map (\<lambda>h. section_filled h (improvedPrompt (applyCOSTARFramework '''' Fast)))
     [''## CONTEXT'', ''## OBJECTIVE'', ''## STYLE'', ''# Requirements'']
     = [True, False, True, True]"
  "map (\<lambda>h. section_filled h (improvedPrompt (applyCOSTARFramework '''' Deep)))
     [''## CONTEXT'', ''## OBJECTIVE'', ''## STYLE'', ''## TONE'', ''## AUDIENCE'',
      ''## RESPONSE'', ''# Requirements'']
     = [True, False, True, True, True, True, True]"
  by code_simp+

text \<open>
  C8. The synthesized prompt of the empty string is not filled with templated text in every
  section: the synthesizer writes, under the Objective heading, the objective it extracts
  from the prompt, which is the empty string, so that in both modes the section consists of
  three empty lines.
\<close>

theorem empty_prompt_objective_section_empty:
  "section_body ''## OBJECTIVE'' (improvedPrompt (applyCOSTARFramework '''' Fast)) =
     ['''', '''', '''']
   \<and> \<not> section_filled ''## OBJECTIVE'' (improvedPrompt (applyCOSTARFramework '''' Fast))
   \<and> section_body ''## OBJECTIVE'' (improvedPrompt (applyCOSTARFramework '''' Deep)) =
     ['''', '''', '''']
   \<and> \<not> section_filled ''## OBJECTIVE'' (improvedPrompt (applyCOSTARFramework '''' Deep))"
  by code_simp

text \<open>
  C8, amended. For every prompt and either mode the analysis returns a result (the source
  has no statement that throws on a string, and the model has no error value): the optional
  components are present exactly in deep mode and the list of changes is not empty. Absence
  of signal lowers the scores and fills the lists: every component score is 100 less the
  weights of the traits that were not detected, and lies between 0 and 100; every component
  has one issue for each primary trait that was not detected, and at least as many
  suggestions as issues.

  For the empty prompt no trait is detected except \<open>achievable\<close>, which is the default of
  the Objective analyzer. Its scores are Context 0, Objective 30, Style 0, and Tone,
  Audience and Response 0; the overall is 11 in fast mode and 6 in deep mode. These are the
  least scores of the Context, Style, Tone, Audience and Response analyzers over all
  prompts, and the least score of the Objective analyzer over all prompts that it finds
  achievable. The synthesized prompt has all section headers of the mode and the
  Requirements heading; every section but Objective is filled with templated text, and the
  Objective section is empty.
\<close>

theorem empty_prompt_analysis:
  "(tone (applyCOSTARFramework p m) = (if m = Deep then Some (analyzeTone p) else None) \<and>
    audience (applyCOSTARFramework p m) =
      (if m = Deep then Some (analyzeAudience p) else None) \<and>
    response (applyCOSTARFramework p m) =
      (if m = Deep then Some (analyzeResponse p) else None) \<and>
    changesSummary (applyCOSTARFramework p m) \<noteq> [])
   \<and> (context (applyCOSTARFramework p m) = analyzeContext p \<and>
    score (analyzeContext p) =
      100 - (weight (\<not> hasBackground (analyzeContext p)) 50 +
             weight (\<not> hasConstraints (analyzeContext p)) 30 +
             weight (\<not> hasTechnicalDetails p) 20) \<and>
    0 \<le> score (analyzeContext p) \<and> score (analyzeContext p) \<le> 100 \<and>
    length (issues (analyzeContext p)) =
      length (filter Not
        [hasBackground (analyzeContext p), hasConstraints (analyzeContext p)]) \<and>
    length (issues (analyzeContext p)) \<le> length (suggestions (analyzeContext p)))
   \<and> (objective (applyCOSTARFramework p m) = analyzeObjective p \<and>
    score (analyzeObjective p) =
      100 - (weight (\<not> goalClarity (analyzeObjective p)) 40 +
             weight (\<not> measurable (analyzeObjective p)) 30 +
             weight (\<not> achievable (analyzeObjective p)) 30) \<and>
    0 \<le> score (analyzeObjective p) \<and> score (analyzeObjective p) \<le> 100 \<and>
    length (issues (analyzeObjective p)) =
      length (filter Not
        [goalClarity (analyzeObjective p), measurable (analyzeObjective p),
         achievable (analyzeObjective p)]) \<and>
    length (issues (analyzeObjective p)) \<le> length (suggestions (analyzeObjective p)))
   \<and> (style (applyCOSTARFramework p m) = analyzeStyle p \<and>
    score (analyzeStyle p) =
      100 - (weight (\<not> formatSpecified (analyzeStyle p)) 40 +
             weight (\<not> structureDefined (analyzeStyle p)) 35 +
             weight (\<not> presentationClear (analyzeStyle p)) 25) \<and>
    0 \<le> score (analyzeStyle p) \<and> score (analyzeStyle p) \<le> 100 \<and>
    length (issues (analyzeStyle p)) =
      length (filter Not
        [formatSpecified (analyzeStyle p), structureDefined (analyzeStyle p)]) \<and>
    length (issues (analyzeStyle p)) \<le> length (suggestions (analyzeStyle p)))
   \<and> (score (analyzeTone p) =
      100 - (weight (\<not> toneSpecified (analyzeTone p)) 50 +
             weight (\<not> voiceConsistency (analyzeTone p)) 25 +
             weight (formalityLevel (analyzeTone p) = Unspecified) 25) \<and>
    0 \<le> score (analyzeTone p) \<and> score (analyzeTone p) \<le> 100 \<and>
    length (issues (analyzeTone p)) = length (filter Not [toneSpecified (analyzeTone p)]) \<and>
    length (issues (analyzeTone p)) \<le> length (suggestions (analyzeTone p)))
   \<and> (score (analyzeAudience p) =
      100 - (weight (\<not> audienceSpecified (analyzeAudience p)) 40 +
             weight (\<not> skillLevelDefined (analyzeAudience p)) 35 +
             weight (\<not> needsAddressed (analyzeAudience p)) 25) \<and>
    0 \<le> score (analyzeAudience p) \<and> score (analyzeAudience p) \<le> 100 \<and>
    length (issues (analyzeAudience p)) =
      length (filter Not [audienceSpecified (analyzeAudience p)]) \<and>
    length (issues (analyzeAudience p)) \<le> length (suggestions (analyzeAudience p)))
   \<and> (score (analyzeResponse p) =
      100 - (weight (\<not> outputFormatClear (analyzeResponse p)) 40 +
             weight (\<not> deliverablesSpecified (analyzeResponse p)) 40 +
             weight (\<not> examplesProvided (analyzeResponse p)) 20) \<and>
    0 \<le> score (analyzeResponse p) \<and> score (analyzeResponse p) \<le> 100 \<and>
    length (issues (analyzeResponse p)) =
      length (filter Not
        [outputFormatClear (analyzeResponse p), deliverablesSpecified (analyzeResponse p)]) \<and>
    length (issues (analyzeResponse p)) \<le> length (suggestions (analyzeResponse p)))
   \<and> (\<not> hasBackground (analyzeContext '''') \<and> \<not> hasConstraints (analyzeContext '''') \<and>
    \<not> hasTechnicalDetails '''' \<and>
    \<not> goalClarity (analyzeObjective '''') \<and> \<not> measurable (analyzeObjective '''') \<and>
    achievable (analyzeObjective '''') \<and>
    \<not> formatSpecified (analyzeStyle '''') \<and> \<not> structureDefined (analyzeStyle '''') \<and>
    \<not> presentationClear (analyzeStyle '''') \<and>
    \<not> toneSpecified (analyzeTone '''') \<and> \<not> voiceConsistency (analyzeTone '''') \<and>
    formalityLevel (analyzeTone '''') = Unspecified \<and>
    \<not> audienceSpecified (analyzeAudience '''') \<and>
    \<not> skillLevelDefined (analyzeAudience '''') \<and>
    \<not> needsAddressed (analyzeAudience '''') \<and>
    \<not> outputFormatClear (analyzeResponse '''') \<and>
    \<not> deliverablesSpecified (analyzeResponse '''') \<and>
    \<not> examplesProvided (analyzeResponse ''''))
   \<and> (score (analyzeContext '''') = 0 \<and> score (analyzeObjective '''') = 30 \<and>
    score (analyzeStyle '''') = 0 \<and> score (analyzeTone '''') = 0 \<and>
    score (analyzeAudience '''') = 0 \<and> score (analyzeResponse '''') = 0 \<and>
    overallScore (applyCOSTARFramework '''' Fast) = 11 \<and>
    overallScore (applyCOSTARFramework '''' Deep) = 6)
   \<and> (score (analyzeContext '''') \<le> score (analyzeContext p) \<and>
    score (analyzeStyle '''') \<le> score (analyzeStyle p) \<and>
    score (analyzeTone '''') \<le> score (analyzeTone p) \<and>
    score (analyzeAudience '''') \<le> score (analyzeAudience p) \<and>
    score (analyzeResponse '''') \<le> score (analyzeResponse p) \<and>
    (achievable (analyzeObjective p) \<longrightarrow>
       score (analyzeObjective '''') \<le> score (analyzeObjective p)))
   \<and> split_nl (improvedPrompt (applyCOSTARFramework '''' Fast)) =
     [''## CONTEXT'', '''',
      ''Background: Development project requiring implementation of new functionality'',
      '''',
      ''## OBJECTIVE'', '''', '''', '''',
      ''## STYLE'', '''',
      ''Format: Provide response as structured, well-organized output'',
      ''Structure: Organize with clear sections and headings'', '''',
      ''---'', '''',
      ''# Requirements'', '''',
      ''- '', ''- [Add specific requirements based on objective]'']
   \<and> split_nl (improvedPrompt (applyCOSTARFramework '''' Deep)) =
     [''## CONTEXT'', '''',
      ''Background: Development project requiring implementation of new functionality'',
      '''',
      ''## OBJECTIVE'', '''', '''', '''',
      ''## STYLE'', '''',
      ''Format: Provide response as structured, well-organized output'',
      ''Structure: Organize with clear sections and headings'', '''',
      ''## TONE'', '''',
      ''Use a professional, technical tone appropriate for developers'', '''',
      ''## AUDIENCE'', '''',
      ''Target audience: Senior developers with expertise in the relevant technology stack'',
      '''',
      ''## RESPONSE'', '''',
      ''Expected deliverables:'', ''- Complete implementation'', ''- Documentation'',
      ''- Test coverage'', '''',
      ''---'', '''',
      ''# Requirements'', '''',
      ''- '', ''- [Add specific requirements based on objective]'']
   \<and> map (\<lambda>h. section_filled h (improvedPrompt (applyCOSTARFramework '''' Fast)))
     [''## CONTEXT'', ''## OBJECTIVE'', ''## STYLE'', ''# Requirements'']
     = [True, False, True, True]
   \<and> map (\<lambda>h. section_filled h (improvedPrompt (applyCOSTARFramework '''' Deep)))
     [''## CONTEXT'', ''## OBJECTIVE'', ''## STYLE'', ''## TONE'', ''## AUDIENCE'',
      ''## RESPONSE'', ''# Requirements'']
     = [True, False, True, True, True, True, True]"
proof -
  have least: "score (analyzeContext '''') \<le> score (analyzeContext p)"
    "score (analyzeStyle '''') \<le> score (analyzeStyle p)"
    "score (analyzeTone '''') \<le> score (analyzeTone p)"
    "score (analyzeAudience '''') \<le> score (analyzeAudience p)"
    "score (analyzeResponse '''') \<le> score (analyzeResponse p)"
    using empty_scores scores_in_range [of p] by presburger+
  have least_objective: "achievable (analyzeObjective p) \<longrightarrow>
      score (analyzeObjective '''') \<le> score (analyzeObjective p)"
    using empty_scores unfolding objective_score [of p] by (simp add: weight_def)
  note all = apply_fields [of p m] changes_nonempty [of p m]
    context_score [of p] objective_score [of p] style_score [of p] tone_score [of p]
    audience_score [of p] response_score [of p] scores_in_range [of p]
    context_lists [of p] objective_lists [of p] style_lists [of p] tone_lists [of p]
    audience_lists [of p] response_lists [of p]
    empty_traits empty_scores empty_overall least least_objective
    empty_fast_lines empty_deep_lines empty_filled
  from all show ?thesis
    apply (elim conjE)
    apply (intro conjI)
    apply assumption+
    done
qed

text \<open>
  The witness instantiates the theorem at the deep analysis of \<open>fix the login bug\<close>, which
  the Objective analyzer finds achievable: its Objective score, 70, is not below the 30 of
  the empty prompt; no background is detected, so there are issues and the Context score is
  at most 50.
\<close>

lemma login_bug_traits:
  "achievable (analyzeObjective ''fix the login bug'') \<and>
   \<not> hasBackground (analyzeContext ''fix the login bug'')"
  by code_simp

theorem empty_prompt_analysis_witness:
  "score (analyzeObjective '''') \<le> score (analyzeObjective ''fix the login bug'')
   \<and> score (analyzeContext ''fix the login bug'') \<le> 50
   \<and> 1 \<le> length (issues (analyzeContext ''fix the login bug''))
   \<and> tone (applyCOSTARFramework ''fix the login bug'' Deep) =
       Some (analyzeTone ''fix the login bug'')"
  using empty_prompt_analysis [of "''fix the login bug''" Deep] login_bug_traits
  by (simp add: weight_def)

end
